theory Spec2Isabelle
  imports Complex_Main "HOL-Library.AList"
begin

section \<open>Errors raised by the streaming control plane\<close>

text \<open>
  The JavaScript sources throw plain \<^verbatim>\<open>Error\<close> objects that differ only in their
  message.  Each constructor below stands for one \<^verbatim>\<open>throw\<close> site (or one class of
  run-time failure) of the modelled functions; the names follow the error taxonomy of the
  specification.
\<close>

datatype error =
    NoWorkersAvailable        \<comment> \<open>MediasoupServer._getNextWorker: the worker list is empty\<close>
  | UndefinedWorker           \<comment> \<open>TypeError: createRouter called on an undefined worker\<close>
  | UndefinedConfig           \<comment> \<open>TypeError: a property read on an undefined part of the configuration\<close>
  | PeerNotFound string      \<comment> \<open>no peer of that id in the room\<close>
  | ProducerNotFound nat
  | TransportNotFound nat
  | NoRtpCapabilities string \<comment> \<open>the consuming peer never announced its capabilities\<close>
  | IncompatibleCapabilities  \<comment> \<open>router.canConsume returned false\<close>
  | PortExhausted             \<comment> \<open>allocateRtpPort: no RTP port left\<close>
  | EncoderFailedToStart     \<comment> \<open>the encoder exited within the grace period after its launch\<close>
  | InvalidInput              \<comment> \<open>addProducer: missing producer or room id, or a room id with other characters\<close>
  | EngineFailure             \<comment> \<open>a call into the media engine, the file system or the encoder rejected\<close>

section \<open>RTP port allocator (hls/converter.js)\<close>

definition minRtpPort :: nat where
  "minRtpPort = 10000"

definition maxRtpPort :: nat where
  "maxRtpPort = 59999"

text \<open>
  The inner sequential search of \<^verbatim>\<open>allocateRtpPort\<close>:
  \<^verbatim>\<open>while (usedPorts.has(port) && port <= maxRtpPort) port += 2;\<close>
\<close>

function scanPorts :: "nat set \<Rightarrow> nat \<Rightarrow> nat" where
  "scanPorts usedPorts port =
     (if port \<in> usedPorts \<and> port \<le> maxRtpPort then scanPorts usedPorts (port + 2) else port)"
  by pat_completeness auto
termination
  by (relation "measure (\<lambda>(u, p). maxRtpPort + 1 - p)") auto

declare scanPorts.simps [simp del]

text \<open>
  One draw of the random candidate:
  \<^verbatim>\<open>port = Math.floor(Math.random() * (maxRtpPort - minRtpPort)) + minRtpPort;
  if (port % 2 !== 0) port++;\<close>
  The value of \<^verbatim>\<open>Math.random()\<close> is the argument \<open>r\<close>.
\<close>

definition randomPort :: "real \<Rightarrow> nat" where
  "randomPort r =
     (let port = nat \<lfloor>r * real (maxRtpPort - minRtpPort)\<rfloor> + minRtpPort
      in if port mod 2 \<noteq> 0 then port + 1 else port)"

text \<open>
  The \<^verbatim>\<open>do { ... } while (usedPorts.has(port) && port <= maxRtpPort)\<close> loop.  The
  argument \<open>attempts\<close> is the counter before the body runs; \<open>random k\<close> is the
  value \<^verbatim>\<open>Math.random()\<close> returns on the draw made when the counter is \<open>k\<close>.
\<close>

function allocLoop :: "(nat \<Rightarrow> real) \<Rightarrow> nat set \<Rightarrow> nat \<Rightarrow> nat" where
  "allocLoop random usedPorts attempts =
     (let port = randomPort (random attempts);
          attempts' = attempts + 1
      in if attempts' > 100 then scanPorts usedPorts minRtpPort
         else if port \<in> usedPorts \<and> port \<le> maxRtpPort
              then allocLoop random usedPorts attempts'
              else port)"
  by pat_completeness auto
termination
  by (relation "measure (\<lambda>(r, u, a). 101 - a)") auto

declare allocLoop.simps [simp del]

text \<open>
  \<^verbatim>\<open>allocateRtpPort\<close> returns the port together with the updated \<^verbatim>\<open>usedPorts\<close>
  set, or the error it throws.
\<close>

definition allocateRtpPort :: "(nat \<Rightarrow> real) \<Rightarrow> nat set \<Rightarrow> error + (nat \<times> nat set)" where
  "allocateRtpPort random usedPorts =
     (let port = allocLoop random usedPorts 0
      in if port > maxRtpPort then Inl PortExhausted
         else Inr (port, insert port usedPorts))"

definition releaseRtpPort :: "nat set \<Rightarrow> nat \<Rightarrow> nat set" where
  "releaseRtpPort usedPorts port = usedPorts - {port}"

section \<open>Worker pool (mediasoup/MediasoupServer.js, mediasoup/RoomManager.js)\<close>

text \<open>
  A worker is an opaque handle of the media engine, identified by its process id.  Both
  classes keep the same two fields, \<^verbatim>\<open>this.workers\<close> (an array) and
  \<^verbatim>\<open>this.nextWorkerIndex\<close> (a JavaScript number).  The number is either an array index
  or \<^verbatim>\<open>NaN\<close>, which is what \<^verbatim>\<open>(i + 1) % 0\<close> evaluates to.
\<close>

type_synonym worker = nat

datatype js_index = Idx nat | NaN

record worker_pool =
  workers :: "worker list"
  nextWorkerIndex :: js_index

text \<open>
  \<^verbatim>\<open>this.workers[this.nextWorkerIndex]\<close>: reading an array outside its bounds, or at
  \<^verbatim>\<open>NaN\<close>, yields \<^verbatim>\<open>undefined\<close> (the value \<open>None\<close>).
\<close>

fun js_array_get :: "'a list \<Rightarrow> js_index \<Rightarrow> 'a option" where
  "js_array_get xs (Idx i) = (if i < length xs then Some (xs ! i) else None)"
| "js_array_get xs NaN = None"

text \<open>\<^verbatim>\<open>(this.nextWorkerIndex + 1) % this.workers.length\<close>\<close>

fun js_succ_mod :: "js_index \<Rightarrow> nat \<Rightarrow> js_index" where
  "js_succ_mod (Idx i) n = (if n = 0 then NaN else Idx ((i + 1) mod n))"
| "js_succ_mod NaN n = NaN"

text \<open>
  \<^verbatim>\<open>MediasoupServer._getNextWorker\<close>: throws when the array is empty, otherwise reads
  the array at the index and advances the index.
\<close>

definition MediasoupServer_getNextWorker ::
  "'a worker_pool_scheme \<Rightarrow> error + (worker option \<times> 'a worker_pool_scheme)" where
  "MediasoupServer_getNextWorker p =
     (if length (workers p) = 0 then Inl NoWorkersAvailable
      else Inr (js_array_get (workers p) (nextWorkerIndex p),
                p\<lparr>nextWorkerIndex := js_succ_mod (nextWorkerIndex p) (length (workers p))\<rparr>))"

text \<open>
  The \<^verbatim>\<open>'died'\<close> handler that \<^verbatim>\<open>MediasoupServer._createWorker\<close> registers: the dead
  worker is filtered out of the array at once; the replacement is pushed later, when
  \<^verbatim>\<open>_createWorker\<close> resolves.
\<close>

definition MediasoupServer_workerDied ::
  "'a worker_pool_scheme \<Rightarrow> worker \<Rightarrow> 'a worker_pool_scheme" where
  "MediasoupServer_workerDied p pid = p\<lparr>workers := filter (\<lambda>w. w \<noteq> pid) (workers p)\<rparr>"

definition MediasoupServer_workerRestarted ::
  "'a worker_pool_scheme \<Rightarrow> worker \<Rightarrow> 'a worker_pool_scheme" where
  "MediasoupServer_workerRestarted p newWorker = p\<lparr>workers := workers p @ [newWorker]\<rparr>"

text \<open>
  \<^verbatim>\<open>RoomManager._getNextWorker\<close>: the same two statements without the emptiness check.
\<close>

definition RoomManager_getNextWorker ::
  "'a worker_pool_scheme \<Rightarrow> worker option \<times> 'a worker_pool_scheme" where
  "RoomManager_getNextWorker p =
     (js_array_get (workers p) (nextWorkerIndex p),
      p\<lparr>nextWorkerIndex := js_succ_mod (nextWorkerIndex p) (length (workers p))\<rparr>)"

text \<open>The pool of a \<^verbatim>\<open>RoomManager\<close> as its constructor leaves it.\<close>

definition RoomManager_emptyPool :: worker_pool where
  "RoomManager_emptyPool = \<lparr>workers = [], nextWorkerIndex = Idx 0\<rparr>"

section \<open>The media engine and the registry data model\<close>

text \<open>
  Room and peer identifiers come from the signaling clients and are strings.  Routers,
  transports, producers and consumers are objects of the media engine; each is
  identified by the number the engine gave it.  A JavaScript \<^verbatim>\<open>Map\<close> is an association
  list in insertion order: \<^verbatim>\<open>get\<close> is \<^const>\<open>map_of\<close>, \<^verbatim>\<open>set\<close> is
  \<^const>\<open>AList.update\<close>, \<^verbatim>\<open>delete\<close> is \<^const>\<open>AList.delete\<close> and \<^verbatim>\<open>size\<close> is
  \<^const>\<open>length\<close>.
\<close>

type_synonym roomId = string
type_synonym peerId = string
type_synonym router = nat
type_synonym transport = nat
type_synonym rtpCapabilities = nat

datatype media_kind = Audio | Video

record producer =
  producer_id :: nat
  producer_kind :: media_kind
  producer_userId :: "string option"

record consumer =
  consumer_id :: nat
  consumer_producerId :: nat
  consumer_paused :: bool
  consumer_userId :: "string option"

text \<open>
  What the control plane can observe of the engine: the next identifier it hands out, the
  routers it created so far (with the worker each lives on), and the routers and
  transports that were closed.  Calls into the engine are taken to resolve; the
  capability check \<^verbatim>\<open>router.canConsume\<close> is a parameter of the operations that use it.
\<close>

record engine =
  nextId :: nat
  routersCreated :: "(router \<times> worker) list"
  closedRouters :: "router list"
  closedTransports :: "transport list"

definition createRouter :: "engine \<Rightarrow> worker \<Rightarrow> router \<times> engine" where
  "createRouter e w =
     (nextId e, e\<lparr>nextId := nextId e + 1, routersCreated := routersCreated e @ [(nextId e, w)]\<rparr>)"

definition freshId :: "engine \<Rightarrow> nat \<times> engine" where
  "freshId e = (nextId e, e\<lparr>nextId := nextId e + 1\<rparr>)"

text \<open>
  An \<^verbatim>\<open>async\<close> function run up to its first \<^verbatim>\<open>await\<close>: it has returned, it has thrown, or
  it is suspended on a promise with the values it will resume with.
\<close>

datatype ('a, 'b) async = Returned 'a | Awaiting 'b | Threw error

section \<open>RoomManager (mediasoup/RoomManager.js)\<close>

record rm_transport =
  rmt_id :: transport
  rmt_userId :: string

record rm_room =
  rm_id :: roomId
  rm_worker :: worker
  rm_router :: router
  rm_producers :: "(nat \<times> producer) list"
  rm_consumers :: "(nat \<times> consumer) list"
  rm_rtpTransports :: "(string \<times> transport) list"
  rm_webRtcTransports :: "(nat \<times> rm_transport) list"

record RoomManager = worker_pool +
  rm_rooms :: "(roomId \<times> rm_room) list"
  rm_engine :: engine

text \<open>
  \<^verbatim>\<open>RoomManager.js\<close> requires \<^verbatim>\<open>mediasoup/config.js\<close> and reads \<^verbatim>\<open>config.worker\<close> and
  \<^verbatim>\<open>config.router\<close>.  The object that \<^verbatim>\<open>config.js\<close> exports has the keys \<^verbatim>\<open>worker\<close> and
  \<^verbatim>\<open>router\<close> only inside \<^verbatim>\<open>config.mediasoup\<close>, so both expressions evaluate to
  \<^verbatim>\<open>undefined\<close> (the value \<open>None\<close>), and reading a property of them is a
  \<^verbatim>\<open>TypeError\<close>.
\<close>

definition config_worker :: "nat option" where  \<comment> \<open>\<^verbatim>\<open>config.worker\<close>, with its \<^verbatim>\<open>numWorkers\<close>\<close>
  "config_worker = None"

definition config_router :: "unit option" where  \<comment> \<open>\<^verbatim>\<open>config.router\<close>\<close>
  "config_router = None"

text \<open>
  \<^verbatim>\<open>RoomManager.initialize\<close> starts with \<^verbatim>\<open>const { numWorkers } = config.worker\<close>, which
  throws: no worker is created and the pool stays as it was.  Past that line it would
  create \<^verbatim>\<open>numWorkers\<close> workers and push each to the array.
\<close>

fun createWorkers :: "nat \<Rightarrow> RoomManager \<Rightarrow> RoomManager" where
  "createWorkers 0 st = st"
| "createWorkers (Suc n) st =
     (let (pid, e) = freshId (rm_engine st)
      in createWorkers n (st\<lparr>workers := workers st @ [pid], rm_engine := e\<rparr>))"

definition RoomManager_initialize :: "RoomManager \<Rightarrow> (error + unit) \<times> RoomManager" where
  "RoomManager_initialize st =
     (case config_worker of
        None \<Rightarrow> (Inl UndefinedConfig, st)
      | Some numWorkers \<Rightarrow> (Inr (), createWorkers numWorkers st))"

text \<open>
  \<^verbatim>\<open>getOrCreateRoom\<close>.  A room found in the map is returned.  Otherwise the next worker
  is taken (which moves the index); \<^verbatim>\<open>worker.createRouter\<close> on an \<^verbatim>\<open>undefined\<close> worker
  is a \<^verbatim>\<open>TypeError\<close>, and on a worker the argument \<^verbatim>\<open>config.router.mediaCodecs\<close> is
  evaluated first, which is a \<^verbatim>\<open>TypeError\<close> as well.  Only past both would the router be
  created and the room stored.
\<close>

definition getOrCreateRoom :: "RoomManager \<Rightarrow> roomId \<Rightarrow> (error + rm_room) \<times> RoomManager" where
  "getOrCreateRoom st roomId =
     (case map_of (rm_rooms st) roomId of
        Some room \<Rightarrow> (Inr room, st)
      | None \<Rightarrow>
          (case RoomManager_getNextWorker st of
             (None, st') \<Rightarrow> (Inl UndefinedWorker, st')
           | (Some w, st') \<Rightarrow>
               (case config_router of
                  None \<Rightarrow> (Inl UndefinedConfig, st')
                | Some _ \<Rightarrow>
                    (let (r, e) = createRouter (rm_engine st') w;
                         room = \<lparr>rm_id = roomId, rm_worker = w, rm_router = r,
                                  rm_producers = [], rm_consumers = [], rm_rtpTransports = [],
                                  rm_webRtcTransports = []\<rparr>
                     in (Inr room,
                         st'\<lparr>rm_engine := e,
                             rm_rooms := AList.update roomId room (rm_rooms st')\<rparr>)))))"

text \<open>
  \<^verbatim>\<open>RoomManager.createConsumer\<close>.  The capability check is the first thing done with
  the room that \<^verbatim>\<open>getOrCreateRoom\<close> returned; the transport and the producer are looked
  up after it.  \<open>canConsume r p caps\<close> is the engine's answer for router \<open>r\<close>.
\<close>

definition RoomManager_createConsumer ::
  "(router \<Rightarrow> nat \<Rightarrow> rtpCapabilities \<Rightarrow> bool) \<Rightarrow> RoomManager \<Rightarrow> roomId \<Rightarrow> nat \<Rightarrow> nat
     \<Rightarrow> rtpCapabilities \<Rightarrow> (error + consumer) \<times> RoomManager" where
  "RoomManager_createConsumer canConsume st roomId transportId producerId caps =
     (case getOrCreateRoom st roomId of
        (Inl e, st') \<Rightarrow> (Inl e, st')
      | (Inr room, st') \<Rightarrow>
          if \<not> canConsume (rm_router room) producerId caps
          then (Inl IncompatibleCapabilities, st')
          else (case map_of (rm_webRtcTransports room) transportId of
                  None \<Rightarrow> (Inl (TransportNotFound transportId), st')
                | Some t \<Rightarrow>
                    (case map_of (rm_producers room) producerId of
                       None \<Rightarrow> (Inl (ProducerNotFound producerId), st')
                     | Some p \<Rightarrow>
                         (let (cid, e) = freshId (rm_engine st');
                              c = \<lparr>consumer_id = cid, consumer_producerId = producerId,
                                   consumer_paused = True,
                                   consumer_userId = Some (rmt_userId t)\<rparr>;
                              room' = room\<lparr>rm_consumers := AList.update cid c (rm_consumers room)\<rparr>
                          in (Inr c, st'\<lparr>rm_engine := e,
                                         rm_rooms := AList.update roomId room' (rm_rooms st')\<rparr>)))))"

text \<open>
  A \<^verbatim>\<open>RoomManager\<close> as its constructor leaves it; \<^verbatim>\<open>initialize\<close> does not change it.
\<close>

definition rm_fresh :: RoomManager where
  "rm_fresh = \<lparr>workers = [], nextWorkerIndex = Idx 0, rm_rooms = [],
      rm_engine = \<lparr>nextId = 0, routersCreated = [], closedRouters = [], closedTransports = []\<rparr>\<rparr>"

section \<open>MediasoupServer (mediasoup/MediasoupServer.js)\<close>

record peer =
  peer_id :: peerId
  peer_transports :: "(nat \<times> transport) list"
  peer_producers :: "(nat \<times> producer) list"
  peer_consumers :: "(nat \<times> consumer) list"
  peer_rtpCapabilities :: "rtpCapabilities option"  \<comment> \<open>\<^verbatim>\<open>peer.data.rtpCapabilities\<close>\<close>

record roomInfo =
  ms_id :: roomId
  ms_router :: router
  ms_peers :: "(peerId \<times> peer) list"
  ms_createdAt :: int

datatype event = PeerClosed roomId peerId

record MediasoupServer = worker_pool +
  ms_rooms :: "(roomId \<times> roomInfo) list"
  ms_producers :: "(nat \<times> producer) list"
  ms_consumers :: "(nat \<times> consumer) list"
  ms_engine :: engine
  ms_events :: "event list"

text \<open>
  \<^verbatim>\<open>getRouter\<close> with the distributed cache switched off (the default of the
  configuration).  It is an \<^verbatim>\<open>async\<close> function whose only \<^verbatim>\<open>await\<close> is then the one on
  \<^verbatim>\<open>worker.createRouter\<close>.  JavaScript runs the code up to the \<^verbatim>\<open>await\<close> without
  interruption, and the code after it without interruption once the promise has resolved;
  other calls can run in between.  The two halves are modelled separately.

  The first half looks the room up.  It either returns the router of the room found, or
  takes the next worker and asks it for a router (\<^verbatim>\<open>config.mediasoup.router.mediaCodecs\<close>
  is defined); calling \<^verbatim>\<open>createRouter\<close> on \<^verbatim>\<open>undefined\<close> is a \<^verbatim>\<open>TypeError\<close>.
\<close>

definition getRouter_begin ::
  "MediasoupServer \<Rightarrow> roomId \<Rightarrow> (router, worker \<times> router) async \<times> MediasoupServer" where
  "getRouter_begin st roomId =
     (case map_of (ms_rooms st) roomId of
        Some room \<Rightarrow> (Returned (ms_router room), st)
      | None \<Rightarrow>
          (case MediasoupServer_getNextWorker st of
             Inl e \<Rightarrow> (Threw e, st)
           | Inr (None, st') \<Rightarrow> (Threw UndefinedWorker, st')
           | Inr (Some w, st') \<Rightarrow>
               (let (r, e) = createRouter (ms_engine st') w
                in (Awaiting (w, r), st'\<lparr>ms_engine := e\<rparr>))))"

text \<open>
  The second half builds the room record around the router, with \<open>now\<close> the value of
  \<^verbatim>\<open>Date.now()\<close>, and stores it under the room id, whatever the registry holds by then.
\<close>

definition getRouter_resume ::
  "MediasoupServer \<Rightarrow> int \<Rightarrow> roomId \<Rightarrow> worker \<times> router \<Rightarrow> router \<times> MediasoupServer" where
  "getRouter_resume st now roomId wr =
     (let roomInfo = \<lparr>ms_id = roomId, ms_router = snd wr, ms_peers = [], ms_createdAt = now\<rparr>
      in (snd wr, st\<lparr>ms_rooms := AList.update roomId roomInfo (ms_rooms st)\<rparr>))"

text \<open>A call that nothing interrupts: both halves, one after the other.\<close>

definition getRouter :: "MediasoupServer \<Rightarrow> int \<Rightarrow> roomId \<Rightarrow> (error + router) \<times> MediasoupServer" where
  "getRouter st now roomId =
     (case getRouter_begin st roomId of
        (Returned r, st') \<Rightarrow> (Inr r, st')
      | (Threw e, st') \<Rightarrow> (Inl e, st')
      | (Awaiting wr, st') \<Rightarrow>
          (let (r, st'') = getRouter_resume st' now roomId wr in (Inr r, st'')))"

text \<open>
  Several calls in flight.  Each call is not yet started, suspended at its \<^verbatim>\<open>await\<close>, or
  finished with its result.  A schedule names, step by step, the call that runs next and
  the clock at that moment: a call that has not started runs its first half, a suspended
  call its second half.
\<close>

datatype call = NotStarted roomId | Suspended roomId "worker \<times> router" | Finished "error + router"

definition run_call :: "MediasoupServer \<Rightarrow> int \<Rightarrow> call \<Rightarrow> call \<times> MediasoupServer" where
  "run_call st now c =
     (case c of
        NotStarted roomId \<Rightarrow>
          (case getRouter_begin st roomId of
             (Returned r, st') \<Rightarrow> (Finished (Inr r), st')
           | (Threw e, st') \<Rightarrow> (Finished (Inl e), st')
           | (Awaiting wr, st') \<Rightarrow> (Suspended roomId wr, st'))
      | Suspended roomId wr \<Rightarrow>
          (let (r, st') = getRouter_resume st now roomId wr in (Finished (Inr r), st'))
      | Finished r \<Rightarrow> (Finished r, st))"

fun run_schedule ::
  "MediasoupServer \<Rightarrow> call list \<Rightarrow> (nat \<times> int) list \<Rightarrow> call list \<times> MediasoupServer" where
  "run_schedule st cs [] = (cs, st)"
| "run_schedule st cs ((i, now) # sched) =
     (if i < length cs
      then (let (c, st') = run_call st now (cs ! i) in run_schedule st' (cs[i := c]) sched)
      else run_schedule st cs sched)"

text \<open>
  Calls for the same room id, each finished before the next starts; one call per clock
  value of the list.
\<close>

fun getRouter_seq ::
  "MediasoupServer \<Rightarrow> roomId \<Rightarrow> int list \<Rightarrow> (error + router) list \<times> MediasoupServer" where
  "getRouter_seq st roomId [] = ([], st)"
| "getRouter_seq st roomId (now # clocks) =
     (let (r, st') = getRouter st now roomId;
          (rs, st'') = getRouter_seq st' roomId clocks
      in (r # rs, st''))"

text \<open>\<^verbatim>\<open>_getPeer\<close>: \<^verbatim>\<open>null\<close> when the room is unknown, else \<^verbatim>\<open>room.peers.get(peerId)\<close>.\<close>

definition getPeer :: "MediasoupServer \<Rightarrow> roomId \<Rightarrow> peerId \<Rightarrow> peer option" where
  "getPeer st roomId peerId =
     (case map_of (ms_rooms st) roomId of
        None \<Rightarrow> None
      | Some room \<Rightarrow> map_of (ms_peers room) peerId)"

text \<open>
  \<^verbatim>\<open>MediasoupServer.createConsumer\<close>: the four lookups, the router, the capabilities the
  consuming peer announced, the capability check, and only then the engine's
  \<^verbatim>\<open>transport.consume\<close> and the two insertions.
\<close>

definition MediasoupServer_createConsumer ::
  "(router \<Rightarrow> nat \<Rightarrow> rtpCapabilities \<Rightarrow> bool) \<Rightarrow> MediasoupServer \<Rightarrow> int \<Rightarrow> roomId \<Rightarrow> peerId
     \<Rightarrow> peerId \<Rightarrow> nat \<Rightarrow> nat \<Rightarrow> (error + consumer) \<times> MediasoupServer" where
  "MediasoupServer_createConsumer canConsume st now roomId consumerPeerId producerPeerId
      producerId transportId =
     (case getPeer st roomId consumerPeerId of
        None \<Rightarrow> (Inl (PeerNotFound consumerPeerId), st)
      | Some consumerPeer \<Rightarrow>
     (case getPeer st roomId producerPeerId of
        None \<Rightarrow> (Inl (PeerNotFound producerPeerId), st)
      | Some producerPeer \<Rightarrow>
     (case map_of (peer_producers producerPeer) producerId of
        None \<Rightarrow> (Inl (ProducerNotFound producerId), st)
      | Some producer \<Rightarrow>
     (case map_of (peer_transports consumerPeer) transportId of
        None \<Rightarrow> (Inl (TransportNotFound transportId), st)
      | Some t \<Rightarrow>
     (case getRouter st now roomId of
        (Inl e, st') \<Rightarrow> (Inl e, st')
      | (Inr r, st') \<Rightarrow>
     (case peer_rtpCapabilities consumerPeer of
        None \<Rightarrow> (Inl (NoRtpCapabilities consumerPeerId), st')
      | Some caps \<Rightarrow>
          if \<not> canConsume r (producer_id producer) caps
          then (Inl IncompatibleCapabilities, st')
          else (let (cid, e) = freshId (ms_engine st');
                    c = \<lparr>consumer_id = cid, consumer_producerId = producer_id producer,
                         consumer_paused = False, consumer_userId = None\<rparr>;
                    consumerPeer' = consumerPeer\<lparr>peer_consumers :=
                                      AList.update cid c (peer_consumers consumerPeer)\<rparr>;
                    rooms' = AList.map_entry roomId
                               (\<lambda>room. room\<lparr>ms_peers :=
                                   AList.update consumerPeerId consumerPeer' (ms_peers room)\<rparr>)
                               (ms_rooms st')
                in (Inr c, st'\<lparr>ms_engine := e, ms_rooms := rooms',
                                ms_consumers := AList.update cid c (ms_consumers st')\<rparr>))))))))"

text \<open>
  \<^verbatim>\<open>closePeer\<close>: nothing happens for an unknown peer.  Otherwise every transport of the
  peer is closed, the peer is deleted from its room, an emptied room has its router closed
  and is deleted from the registry, and \<^verbatim>\<open>peerClosed\<close> is emitted.
\<close>

definition closePeer :: "MediasoupServer \<Rightarrow> roomId \<Rightarrow> peerId \<Rightarrow> MediasoupServer" where
  "closePeer st roomId peerId =
     (case getPeer st roomId peerId of
        None \<Rightarrow> st
      | Some peer \<Rightarrow>
          (case map_of (ms_rooms st) roomId of
             None \<Rightarrow> st
           | Some room \<Rightarrow>
               (let e1 = (ms_engine st)\<lparr>closedTransports :=
                            closedTransports (ms_engine st) @ map snd (peer_transports peer)\<rparr>;
                    room' = room\<lparr>ms_peers := AList.delete peerId (ms_peers room)\<rparr>;
                    st1 = (if length (ms_peers room') = 0
                           then st\<lparr>ms_engine := e1\<lparr>closedRouters :=
                                                   closedRouters e1 @ [ms_router room']\<rparr>,
                                   ms_rooms := AList.delete roomId (ms_rooms st)\<rparr>
                           else st\<lparr>ms_engine := e1,
                                   ms_rooms := AList.update roomId room' (ms_rooms st)\<rparr>)
                in st1\<lparr>ms_events := ms_events st1 @ [PeerClosed roomId peerId]\<rparr>)))"

text \<open>
  A concrete server: one room with two peers; alice publishes video producer 2 on transport 1,
  bob has transport 3 and has announced his capabilities.
\<close>

definition ms_example :: MediasoupServer where
  "ms_example = \<lparr>workers = [100], nextWorkerIndex = Idx 0,
     ms_rooms = [(''room-1'',
        \<lparr>ms_id = ''room-1'', ms_router = 0,
         ms_peers = [(''alice'', \<lparr>peer_id = ''alice'', peer_transports = [(1, 1)],
                        peer_producers = [(2, \<lparr>producer_id = 2, producer_kind = Video,
                                                producer_userId = None\<rparr>)],
                        peer_consumers = [], peer_rtpCapabilities = None\<rparr>),
                     (''bob'', \<lparr>peer_id = ''bob'', peer_transports = [(3, 3)],
                        peer_producers = [], peer_consumers = [],
                        peer_rtpCapabilities = Some 7\<rparr>)],
         ms_createdAt = 0\<rparr>)],
     ms_producers = [(2, \<lparr>producer_id = 2, producer_kind = Video, producer_userId = None\<rparr>)],
     ms_consumers = [],
     ms_engine = \<lparr>nextId = 4, routersCreated = [(0, 100)], closedRouters = [],
                  closedTransports = []\<rparr>,
     ms_events = []\<rparr>"

text \<open>A server after \<^verbatim>\<open>start()\<close> with two workers and no room yet.\<close>

definition ms_fresh :: MediasoupServer where
  "ms_fresh = \<lparr>workers = [100, 101], nextWorkerIndex = Idx 0, ms_rooms = [],
     ms_producers = [], ms_consumers = [],
     ms_engine = \<lparr>nextId = 0, routersCreated = [], closedRouters = [],
                  closedTransports = []\<rparr>,
     ms_events = []\<rparr>"

section \<open>Adaptive bitrate controller (MediasoupServer._setupNetworkMonitoring)\<close>

text \<open>
  Bitrates and millisecond clocks are integers, round-trip times and the two factors are
  reals.  A JavaScript number is an IEEE 754 double: a product is the exact product rounded
  to the nearest double, ties to the even significand.  \<open>double_round\<close> is that rounding
  for magnitudes between \<open>2 ^ -1022\<close> and \<open>2 ^ 1024\<close>: a positive \<open>x\<close> with
  \<open>2 ^ e \<le> x < 2 ^ (e + 1)\<close> is rounded to a multiple of \<open>2 ^ (e - 52)\<close>.
\<close>

definition round_half_even :: "real \<Rightarrow> int" where
  "round_half_even y =
     (let f = \<lfloor>y\<rfloor>; d = y - of_int f
      in if d < 1 / 2 then f else if 1 / 2 < d then f + 1 else if even f then f else f + 1)"

text \<open>The number of halvings that bring \<open>x\<close> below 2.\<close>

function expUp :: "real \<Rightarrow> nat" where
  "expUp x = (if x < 2 then 0 else Suc (expUp (x / 2)))"
  by pat_completeness auto
termination
proof (relation "measure (\<lambda>x. nat \<lfloor>x\<rfloor>)")
  show "wf (measure (\<lambda>x::real. nat \<lfloor>x\<rfloor>))" by simp
next
  fix x :: real
  assume "\<not> x < 2"
  then have "x / 2 \<le> x - 1" by simp
  then have "\<lfloor>x / 2\<rfloor> \<le> \<lfloor>x - 1\<rfloor>" by (rule floor_mono)
  moreover have "2 \<le> \<lfloor>x\<rfloor>" using \<open>\<not> x < 2\<close> by (simp add: le_floor_iff)
  ultimately show "(x / 2, x) \<in> measure (\<lambda>x. nat \<lfloor>x\<rfloor>)" by simp
qed

declare expUp.simps [simp del]

text \<open>The binary exponent \<open>e\<close> of a positive \<open>x\<close>: \<open>2 ^ e \<le> x < 2 ^ (e + 1)\<close>.\<close>

definition double_exponent :: "real \<Rightarrow> int" where
  "double_exponent x =
     (if 1 \<le> x then int (expUp x)
      else (let k = expUp (1 / x)
            in if x * 2 ^ k = 1 then - int k else - int k - 1))"

definition double_round_pos :: "real \<Rightarrow> real" where
  "double_round_pos x =
     (let e = double_exponent x
      in if e \<le> 52
         then of_int (round_half_even (x * 2 ^ nat (52 - e))) / 2 ^ nat (52 - e)
         else of_int (round_half_even (x / 2 ^ nat (e - 52))) * 2 ^ nat (e - 52))"

definition double_round :: "real \<Rightarrow> real" where
  "double_round x =
     (if x = 0 then 0
      else if 0 < x then double_round_pos x
      else - double_round_pos (- x))"

text \<open>
  The tunables come from \<^verbatim>\<open>config.mediasoup.adaptiveBitrate\<close> and
  \<^verbatim>\<open>config.mediasoup.webRtcTransport\<close>.
\<close>

record abr_config =
  minRtt :: real
  decreaseFactor :: real
  increaseFactor :: real
  adjustmentThrottleMs :: int
  stableNetworkThreshold :: nat
  minimumAvailableOutgoingBitrate :: int
  maximumAvailableOutgoingBitrate :: int

text \<open>
  The values of \<^verbatim>\<open>config.js\<close> when no environment variable overrides them.  The
  literal \<^verbatim>\<open>0.75\<close> is the double \<open>3/4\<close>; the literal \<^verbatim>\<open>1.15\<close> is the double
  \<open>2589569785738035 / 2 ^ 51\<close>, a little below \<open>115/100\<close>.
\<close>

definition defaultConfig :: abr_config where
  "defaultConfig = \<lparr>minRtt = 50, decreaseFactor = 75 / 100,
     increaseFactor = 2589569785738035 / 2251799813685248,
     adjustmentThrottleMs = 5000, stableNetworkThreshold = 5,
     minimumAvailableOutgoingBitrate = 250000,
     maximumAvailableOutgoingBitrate = 5000000\<rparr>"

text \<open>
  One entry of the array \<^verbatim>\<open>transport.getStats()\<close> resolves to; \<^verbatim>\<open>roundTripTime\<close> may be
  missing.
\<close>

record stat =
  stat_type :: string
  stat_kind :: string
  roundTripTime :: "real option"

text \<open>
  \<^verbatim>\<open>stats.find(s => s.type === 'outbound-rtp' && s.kind === 'video')?.roundTripTime\<close>
\<close>

definition videoRtt :: "stat list \<Rightarrow> real option" where
  "videoRtt stats =
     (case find (\<lambda>s. stat_type s = ''outbound-rtp'' \<and> stat_kind s = ''video'') stats of
        None \<Rightarrow> None
      | Some s \<Rightarrow> roundTripTime s)"

text \<open>
  The variables the interval callback closes over (\<^verbatim>\<open>lastAdjustmentTime\<close>,
  \<^verbatim>\<open>lastStats\<close>, \<^verbatim>\<open>stableNetworkCount\<close>), whether the interval is still scheduled, and
  what the callback sees of the transport: its \<^verbatim>\<open>closed\<close> flag and the ceiling that
  \<^verbatim>\<open>getMaxOutgoingBitrate\<close> reads and \<^verbatim>\<open>setMaxOutgoingBitrate\<close> writes.  \<open>applied\<close> logs
  every value passed to \<^verbatim>\<open>setMaxOutgoingBitrate\<close>, oldest first.
\<close>

record abr_state =
  lastAdjustmentTime :: int
  lastStats :: "stat list option"
  stableNetworkCount :: nat
  scheduled :: bool
  closed :: bool
  maxOutgoingBitrate :: int
  applied :: "int list"

definition setMaxOutgoingBitrate :: "abr_state \<Rightarrow> int \<Rightarrow> abr_state" where
  "setMaxOutgoingBitrate s b = s\<lparr>maxOutgoingBitrate := b, applied := applied s @ [b]\<rparr>"

text \<open>
  One run of the interval callback at time \<open>now\<close>.  \<open>statsResult\<close> is what
  \<^verbatim>\<open>transport.getStats()\<close> resolved to, or \<open>None\<close> when it rejected (the \<^verbatim>\<open>catch\<close>
  logs the error and the callback ends); the engine's \<^verbatim>\<open>getMaxOutgoingBitrate\<close> and
  \<^verbatim>\<open>setMaxOutgoingBitrate\<close> are taken to resolve, and a callback to finish before the
  next one starts.  The test \<^verbatim>\<open>!currentRtt || !lastRtt\<close> holds for
  a missing value and for zero.  The product of the increase branch is rounded to a double
  before \<^verbatim>\<open>Math.floor\<close>; the product of the decrease branch is left exact, as it is
  for the factor \<open>3/4\<close> of the configuration and a bitrate below \<open>2 ^ 51\<close>.  Round-trip
  times are compared over the reals.
\<close>

definition abrTick :: "abr_config \<Rightarrow> abr_state \<Rightarrow> int \<Rightarrow> stat list option \<Rightarrow> abr_state" where
  "abrTick cfg s now statsResult =
     (if \<not> scheduled s then s
      else if closed s then s\<lparr>scheduled := False\<rparr>
      else (case statsResult of
              None \<Rightarrow> s
            | Some stats \<Rightarrow>
                (case lastStats s of
                   None \<Rightarrow> s\<lparr>lastStats := Some stats\<rparr>
                 | Some prevStats \<Rightarrow>
                     (case (videoRtt stats, videoRtt prevStats) of
                        (Some currentRtt, Some lastRtt) \<Rightarrow>
                          if currentRtt = 0 \<or> lastRtt = 0 then s
                          else if now - lastAdjustmentTime s < adjustmentThrottleMs cfg then s
                          else
                            (let currentBitrate = maxOutgoingBitrate s;
                                 sensitivityFactor = 12 / 10
                             in if currentRtt > lastRtt * sensitivityFactor
                                   \<and> currentRtt > minRtt cfg * (15 / 10)
                                then
                                  (let newBitrate = max (minimumAvailableOutgoingBitrate cfg)
                                         \<lfloor>real_of_int currentBitrate * decreaseFactor cfg\<rfloor>
                                   in (setMaxOutgoingBitrate s newBitrate)
                                        \<lparr>lastAdjustmentTime := now, stableNetworkCount := 0,
                                         lastStats := Some stats\<rparr>)
                                else if currentRtt < minRtt cfg * (12 / 10)
                                then
                                  (if stableNetworkCount s + 1 \<ge> stableNetworkThreshold cfg
                                   then
                                     (let newBitrate = min (maximumAvailableOutgoingBitrate cfg)
                                            \<lfloor>double_round (real_of_int currentBitrate
                                                             * increaseFactor cfg)\<rfloor>
                                      in (setMaxOutgoingBitrate s newBitrate)
                                           \<lparr>lastAdjustmentTime := now, stableNetworkCount := 0,
                                            lastStats := Some stats\<rparr>)
                                   else s\<lparr>stableNetworkCount := stableNetworkCount s + 1,
                                          lastStats := Some stats\<rparr>)
                                else s\<lparr>stableNetworkCount := 0, lastStats := Some stats\<rparr>)
                      | _ \<Rightarrow> s))))"

text \<open>
  What happens to a controller over time: the interval fires, or the transport is closed
  from outside.
\<close>

datatype abr_event = Tick int "stat list option" | TransportClosed

fun abrStep :: "abr_config \<Rightarrow> abr_state \<Rightarrow> abr_event \<Rightarrow> abr_state" where
  "abrStep cfg s (Tick now statsResult) = abrTick cfg s now statsResult"
| "abrStep cfg s TransportClosed = s\<lparr>closed := True\<rparr>"

definition abrRun :: "abr_config \<Rightarrow> abr_state \<Rightarrow> abr_event list \<Rightarrow> abr_state" where
  "abrRun cfg s events = foldl (abrStep cfg) s events"

text \<open>
  The controller as \<^verbatim>\<open>_setupNetworkMonitoring\<close> starts it at time \<open>t0\<close> on a transport
  whose outgoing ceiling reads \<open>b\<close>.
\<close>

definition abrInit :: "int \<Rightarrow> int \<Rightarrow> abr_state" where
  "abrInit t0 b = \<lparr>lastAdjustmentTime = t0, lastStats = None, stableNetworkCount = 0,
     scheduled = True, closed = False, maxOutgoingBitrate = b, applied = []\<rparr>"

text \<open>A stats array whose only entry is the outbound video stream with the given RTT.\<close>

definition videoStats :: "real \<Rightarrow> stat list" where
  "videoStats rtt = [\<lparr>stat_type = ''outbound-rtp'', stat_kind = ''video'',
                      roundTripTime = Some rtt\<rparr>]"

text \<open>
  A bitrate within the configured bounds, and the invariant of the controller: the
  ceiling of the transport and every value applied so far are within the bounds.
\<close>

definition in_range :: "abr_config \<Rightarrow> int \<Rightarrow> bool" where
  "in_range cfg b \<longleftrightarrow>
     minimumAvailableOutgoingBitrate cfg \<le> b \<and> b \<le> maximumAvailableOutgoingBitrate cfg"

definition abr_inv :: "abr_config \<Rightarrow> abr_state \<Rightarrow> bool" where
  "abr_inv cfg s \<longleftrightarrow> in_range cfg (maxOutgoingBitrate s) \<and> list_all (in_range cfg) (applied s)"

text \<open>
  A run with one congestion step and, once the throttle window has passed, five calm samples
  in a row; and a run of calm samples only.
\<close>

definition exampleEvents :: "abr_event list" where
  "exampleEvents = [Tick 1000 (Some (videoStats 40)), Tick 6000 (Some (videoStats 100)),
     Tick 12000 (Some (videoStats 40)), Tick 14000 (Some (videoStats 40)),
     Tick 16000 (Some (videoStats 40)), Tick 18000 (Some (videoStats 40)),
     Tick 20000 (Some (videoStats 40))]"

definition calmEvents :: "abr_event list" where
  "calmEvents = [Tick 1000 (Some (videoStats 40)), Tick 6000 (Some (videoStats 40)),
     Tick 7000 (Some (videoStats 40)), Tick 8000 (Some (videoStats 40)),
     Tick 9000 (Some (videoStats 40)), Tick 10000 (Some (videoStats 40))]"

section \<open>HLS transcoding supervisor (hls/HlsConverterService.js)\<close>

text \<open>
  The parts of the configuration that \<^verbatim>\<open>startConversion\<close> reads.  An unset CloudFront
  domain is the empty string (falsy, like \<^verbatim>\<open>undefined\<close>).
\<close>

record hls_config =
  hls_outputPath :: string
  hls_baseUrl :: string
  cloudFront_enabled :: bool
  cloudFront_domain :: string
  s3_enabled :: bool
  s3_bucket :: string
  aws_region :: string

record hls_producer =
  hp_id :: string
  hp_kind :: media_kind

record rtp_consumer =
  rc_id :: nat
  rc_ssrc :: nat
  rc_kind :: media_kind

text \<open>The arguments of \<^verbatim>\<open>_spawnFfmpeg\<close>, which determine the encoder's command line.\<close>

record spawn_args =
  sp_roomId :: string
  sp_rtpPort :: nat
  sp_rtpHost :: string
  sp_mediaKind :: media_kind
  sp_outputDir :: string

text \<open>
  A conversion is a mutable object: \<^verbatim>\<open>_restartFFmpeg\<close> assigns its \<^verbatim>\<open>ffmpegProcess\<close>
  field, and the exit handlers and restart timers hold on to the object after
  \<^verbatim>\<open>stopConversion\<close> has deleted it from the \<^verbatim>\<open>conversions\<close> map.  Objects therefore
  live in a store, addressed by reference, and the map holds references.
\<close>

record conversion =
  c_id :: string
  c_roomId :: string
  c_producerId :: string
  c_outputDir :: string
  c_transport :: nat
  c_consumer :: rtp_consumer
  c_ffmpegProcess :: nat
  c_hlsUrl :: string
  c_startedAt :: int
  c_s3Uploading :: bool

text \<open>
  A pending \<^verbatim>\<open>setTimeout\<close> of the restart logic: when it is due, and the conversion id
  and conversion object its callback closes over.
\<close>

record timer =
  t_fireAt :: int
  t_conversionId :: string
  t_conversion :: nat

record HlsConverterService =
  conversions :: "(string \<times> nat) list"
  store :: "(nat \<times> conversion) list"
  svc_closed :: bool                            \<comment> \<open>\<^verbatim>\<open>this._closed\<close>\<close>
  spawned :: "(nat \<times> spawn_args) list"          \<comment> \<open>every encoder process started: pid, arguments\<close>
  killed :: "nat list"                          \<comment> \<open>processes sent \<^verbatim>\<open>SIGKILL\<close>\<close>
  exitHandlers :: "(nat \<times> string \<times> nat) list"   \<comment> \<open>process \<open>\<mapsto>\<close> id and object its exit handler closes over\<close>
  timers :: "timer list"
  uploaders :: "nat list"                       \<comment> \<open>conversions whose upload loop was started\<close>
  hls_closedConsumers :: "nat list"
  hls_closedTransports :: "nat list"
  hls_nextId :: nat

text \<open>
  What the world outside does during one \<^verbatim>\<open>startConversion\<close>: whether \<^verbatim>\<open>mkdir\<close> and the
  engine calls (\<^verbatim>\<open>createPlainTransport\<close>, \<^verbatim>\<open>consume\<close>, \<^verbatim>\<open>connect\<close>) resolve, the SSRC of the
  consumer, and whether the encoder is still running one second after it was spawned.
\<close>

datatype spawn_outcome = StaysUp | ExitsEarly

record start_env =
  mkdirOk :: bool
  engineOk :: bool
  ssrc :: nat
  encoder :: spawn_outcome

text \<open>
  \<^verbatim>\<open>_spawnFfmpeg\<close>: the process is started in any case; the promise resolves with it when
  it is still up after the grace period and rejects when it exited before.  (The
  \<^verbatim>\<open>'close'\<close> handler inside \<^verbatim>\<open>_spawnFfmpeg\<close> returns at once, because the timeout it
  tests has always been cleared by then.)
\<close>

definition spawnFfmpeg ::
  "HlsConverterService \<Rightarrow> spawn_args \<Rightarrow> spawn_outcome \<Rightarrow> (error + nat) \<times> HlsConverterService" where
  "spawnFfmpeg st args outcome =
     (let pid = hls_nextId st;
          st' = st\<lparr>hls_nextId := pid + 1, spawned := spawned st @ [(pid, args)]\<rparr>
      in case outcome of
           StaysUp \<Rightarrow> (Inr pid, st')
         | ExitsEarly \<Rightarrow> (Inl EncoderFailedToStart, st'))"

text \<open>The three-way choice of the playlist URL.\<close>

definition hlsUrl :: "hls_config \<Rightarrow> string \<Rightarrow> string \<Rightarrow> string" where
  "hlsUrl cfg roomId producerId =
     (if cloudFront_enabled cfg \<and> cloudFront_domain cfg \<noteq> []
      then ''https://'' @ cloudFront_domain cfg @ ''/hls/'' @ roomId @ ''/'' @ producerId
             @ ''/playlist.m3u8''
      else if s3_enabled cfg
      then ''https://'' @ s3_bucket cfg @ ''.s3.'' @ aws_region cfg @ ''.amazonaws.com/hls/''
             @ roomId @ ''/'' @ producerId @ ''/playlist.m3u8''
      else hls_baseUrl cfg @ ''/'' @ roomId @ ''/'' @ producerId @ ''/playlist.m3u8'')"

text \<open>
  \<^verbatim>\<open>startConversion\<close>, run without interruption.  It returns the conversion object (its
  reference).  An existing entry under the conversion id is returned as it is; otherwise
  the directory, the side-channel transport and consumer and the encoder are set up, the
  conversion is stored, its upload loop is started when S3 is enabled, and the exit
  handler is registered on the encoder process.
\<close>

definition startConversion ::
  "hls_config \<Rightarrow> HlsConverterService \<Rightarrow> int \<Rightarrow> string \<Rightarrow> hls_producer \<Rightarrow> start_env
     \<Rightarrow> (error + nat) \<times> HlsConverterService" where
  "startConversion cfg st now roomId producer env =
     (let conversionId = roomId @ ''-'' @ hp_id producer
      in case map_of (conversions st) conversionId of
           Some ref \<Rightarrow> (Inr ref, st)
         | None \<Rightarrow>
             if \<not> mkdirOk env \<or> \<not> engineOk env then (Inl EngineFailure, st)
             else
               (let outputDir = hls_outputPath cfg @ ''/'' @ roomId @ ''/'' @ hp_id producer;
                    rtpTransport = hls_nextId st;
                    rtpConsumer = \<lparr>rc_id = hls_nextId st + 1, rc_ssrc = ssrc env,
                                   rc_kind = hp_kind producer\<rparr>;
                    st1 = st\<lparr>hls_nextId := hls_nextId st + 2\<rparr>;
                    args = \<lparr>sp_roomId = roomId, sp_rtpPort = rc_ssrc rtpConsumer,
                            sp_rtpHost = ''127.0.0.1'', sp_mediaKind = hp_kind producer,
                            sp_outputDir = outputDir\<rparr>
                in case spawnFfmpeg st1 args (encoder env) of
                     (Inl e, st2) \<Rightarrow> (Inl e, st2)
                   | (Inr pid, st2) \<Rightarrow>
                       (let ref = hls_nextId st2;
                            c = \<lparr>c_id = conversionId, c_roomId = roomId,
                                 c_producerId = hp_id producer, c_outputDir = outputDir,
                                 c_transport = rtpTransport, c_consumer = rtpConsumer,
                                 c_ffmpegProcess = pid,
                                 c_hlsUrl = hlsUrl cfg roomId (hp_id producer),
                                 c_startedAt = now, c_s3Uploading = s3_enabled cfg\<rparr>
                        in (Inr ref,
                            st2\<lparr>hls_nextId := ref + 1,
                                conversions := AList.update conversionId ref (conversions st2),
                                store := AList.update ref c (store st2),
                                uploaders := (if s3_enabled cfg then uploaders st2 @ [ref]
                                              else uploaders st2),
                                exitHandlers :=
                                  AList.update pid (conversionId, ref) (exitHandlers st2)\<rparr>))))"

text \<open>
  \<^verbatim>\<open>_restartFFmpeg(conversion)\<close>: kill the old process, spawn the encoder again with the
  consumer's port and the conversion's output directory, and on success store the new
  process in the conversion object and register the exit handler on it.  A rejected spawn
  is logged by the caller's \<^verbatim>\<open>catch\<close>.
\<close>

definition restartFFmpeg ::
  "HlsConverterService \<Rightarrow> nat \<Rightarrow> spawn_outcome \<Rightarrow> HlsConverterService" where
  "restartFFmpeg st ref outcome =
     (case map_of (store st) ref of
        None \<Rightarrow> st
      | Some c \<Rightarrow>
          (let st1 = st\<lparr>killed := killed st @ [c_ffmpegProcess c]\<rparr>;
               args = \<lparr>sp_roomId = c_roomId c, sp_rtpPort = rc_ssrc (c_consumer c),
                       sp_rtpHost = ''127.0.0.1'', sp_mediaKind = rc_kind (c_consumer c),
                       sp_outputDir = c_outputDir c\<rparr>
           in case spawnFfmpeg st1 args outcome of
                (Inl e, st2) \<Rightarrow> st2
              | (Inr pid, st2) \<Rightarrow>
                  st2\<lparr>store := AList.update ref (c\<lparr>c_ffmpegProcess := pid\<rparr>) (store st2),
                      exitHandlers := AList.update pid (c_id c, ref) (exitHandlers st2)\<rparr>))"

text \<open>
  The \<^verbatim>\<open>'exit'\<close> event of process \<open>pid\<close> at time \<open>now\<close>; \<open>code\<close> is \<open>None\<close> for
  \<^verbatim>\<open>null\<close> (the process was ended by a signal).  The handler tests
  \<^verbatim>\<open>code !== 0 && !this._closed\<close> and sets the ten-second timer.
\<close>

definition restartDelayMs :: int where
  "restartDelayMs = 10000"

definition processExit ::
  "HlsConverterService \<Rightarrow> int \<Rightarrow> nat \<Rightarrow> int option \<Rightarrow> HlsConverterService" where
  "processExit st now pid code =
     (case map_of (exitHandlers st) pid of
        None \<Rightarrow> st
      | Some (conversionId, ref) \<Rightarrow>
          (let st1 = st\<lparr>exitHandlers := AList.delete pid (exitHandlers st)\<rparr>
           in if code \<noteq> Some 0 \<and> \<not> svc_closed st
              then st1\<lparr>timers := timers st1 @ [\<lparr>t_fireAt = now + restartDelayMs,
                                                 t_conversionId = conversionId,
                                                 t_conversion = ref\<rparr>]\<rparr>
              else st1))"

text \<open>
  The oldest pending timer fires once it is due.  Its callback tests
  \<^verbatim>\<open>this.conversions.has(conversionId) && !this._closed\<close> and restarts the conversion
  object it closed over.
\<close>

definition timerFires ::
  "HlsConverterService \<Rightarrow> int \<Rightarrow> spawn_outcome \<Rightarrow> HlsConverterService" where
  "timerFires st now outcome =
     (case timers st of
        [] \<Rightarrow> st
      | t # ts \<Rightarrow>
          if now < t_fireAt t then st
          else (let st1 = st\<lparr>timers := ts\<rparr>
                in if map_of (conversions st1) (t_conversionId t) \<noteq> None \<and> \<not> svc_closed st1
                   then restartFFmpeg st1 (t_conversion t) outcome
                   else st1))"

text \<open>
  \<^verbatim>\<open>stopConversion\<close>: nothing for an unknown id; otherwise the encoder is killed, the
  consumer and the transport are closed and the entry is deleted from the map.
\<close>

definition stopConversion ::
  "HlsConverterService \<Rightarrow> string \<Rightarrow> string \<Rightarrow> HlsConverterService" where
  "stopConversion st roomId producerId =
     (let conversionId = roomId @ ''-'' @ producerId
      in case map_of (conversions st) conversionId of
           None \<Rightarrow> st
         | Some ref \<Rightarrow>
             (case map_of (store st) ref of
                None \<Rightarrow> st\<lparr>conversions := AList.delete conversionId (conversions st)\<rparr>
              | Some c \<Rightarrow>
                  st\<lparr>killed := killed st @ [c_ffmpegProcess c],
                     hls_closedConsumers := hls_closedConsumers st @ [rc_id (c_consumer c)],
                     hls_closedTransports := hls_closedTransports st @ [c_transport c],
                     conversions := AList.delete conversionId (conversions st)\<rparr>))"

text \<open>A service as its constructor leaves it, a configuration, a producer and a kind world.\<close>

definition hls_init :: HlsConverterService where
  "hls_init = \<lparr>conversions = [], store = [], svc_closed = False, spawned = [], killed = [],
     exitHandlers = [], timers = [], uploaders = [], hls_closedConsumers = [],
     hls_closedTransports = [], hls_nextId = 0\<rparr>"

definition hls_exampleConfig :: hls_config where
  "hls_exampleConfig = \<lparr>hls_outputPath = ''public/hls'', hls_baseUrl = ''http://localhost:3000/hls'',
     cloudFront_enabled = False, cloudFront_domain = [], s3_enabled = False,
     s3_bucket = ''casino-platform-media'', aws_region = ''ap-northeast-2''\<rparr>"

definition hls_exampleProducer :: hls_producer where
  "hls_exampleProducer = \<lparr>hp_id = ''cam'', hp_kind = Video\<rparr>"

definition hls_goodEnv :: start_env where
  "hls_goodEnv = \<lparr>mkdirOk = True, engineOk = True, ssrc = 5004, encoder = StaysUp\<rparr>"

text \<open>The service after one successful \<^verbatim>\<open>startConversion\<close> for room-1 and producer cam.\<close>

definition hls_running :: HlsConverterService where
  "hls_running = \<lparr>conversions = [(''room-1-cam'', 3)],
     store = [(3, \<lparr>c_id = ''room-1-cam'', c_roomId = ''room-1'', c_producerId = ''cam'',
               c_outputDir = ''public/hls/room-1/cam'', c_transport = 0,
               c_consumer = \<lparr>rc_id = 1, rc_ssrc = 5004, rc_kind = Video\<rparr>,
               c_ffmpegProcess = 2,
               c_hlsUrl = ''http://localhost:3000/hls/room-1/cam/playlist.m3u8'',
               c_startedAt = 1000, c_s3Uploading = False\<rparr>)],
     svc_closed = False,
     spawned = [(2, \<lparr>sp_roomId = ''room-1'', sp_rtpPort = 5004, sp_rtpHost = ''127.0.0.1'',
                     sp_mediaKind = Video, sp_outputDir = ''public/hls/room-1/cam''\<rparr>)],
     killed = [], exitHandlers = [(2, ''room-1-cam'', 3)], timers = [], uploaders = [],
     hls_closedConsumers = [], hls_closedTransports = [], hls_nextId = 4\<rparr>"

text \<open>
  The conversion is stopped, and the killed encoder's exit event (no exit code, ended by
  the signal) arrives at time 2000; then the same room and producer are started again at
  time 3000.
\<close>

definition hls_stopped :: HlsConverterService where
  "hls_stopped = processExit (stopConversion hls_running ''room-1'' ''cam'') 2000 2 None"

definition hls_started_again :: HlsConverterService where
  "hls_started_again =
     snd (startConversion hls_exampleConfig hls_stopped 3000 ''room-1'' hls_exampleProducer
            hls_goodEnv)"

text \<open>The same start on a service configured with S3 uploads.\<close>

definition hls_s3Config :: hls_config where
  "hls_s3Config = hls_exampleConfig\<lparr>s3_enabled := True\<rparr>"

definition hls_running_s3 :: HlsConverterService where
  "hls_running_s3 =
     snd (startConversion hls_s3Config hls_init 1000 ''room-1'' hls_exampleProducer hls_goodEnv)"

section \<open>HLS conversion module (hls/converter.js)\<close>

record rtp_info =
  rtpPort :: nat
  rtpHost :: string
  rtp_outputDir :: string

record producer_info =
  pi_id :: string
  pi_kind :: media_kind
  pi_roomId :: string
  pi_outputId :: string
  pi_createdAt :: int
  pi_hlsUrl :: "string option"
  pi_rtpInfo :: "rtp_info option"

text \<open>
  The module-level maps \<^verbatim>\<open>producers\<close> and \<^verbatim>\<open>ffmpegProcesses\<close>, the set
  \<^verbatim>\<open>usedPorts\<close>, and the encoder processes started so far (pid, RTP port, output
  directory).
\<close>

record converter =
  cv_producers :: "(string \<times> producer_info) list"
  cv_ffmpegProcesses :: "(string \<times> nat) list"
  cv_usedPorts :: "nat set"
  cv_spawned :: "(nat \<times> nat \<times> string) list"
  cv_nextPid :: nat

text \<open>
  What \<^verbatim>\<open>addProducer\<close> draws from outside: the hexadecimal id of
  \<^verbatim>\<open>generateSecureId\<close>, the values of \<^verbatim>\<open>Math.random()\<close> for the port allocator, and
  whether \<^verbatim>\<open>mkdir\<close> resolves.
\<close>

record add_env =
  secureId :: string
  portRandom :: "nat \<Rightarrow> real"
  add_mkdirOk :: bool

text \<open>The characters that \<^verbatim>\<open>roomId.replace(/[^\w-]/g, '')\<close> keeps.\<close>

definition wordOrDash :: "char \<Rightarrow> bool" where
  "wordOrDash c \<longleftrightarrow>
     c \<in> set (''abcdefghijklmnopqrstuvwxyz'' @ ''ABCDEFGHIJKLMNOPQRSTUVWXYZ''
               @ ''0123456789'' @ ''_-'')"

text \<open>
  \<^verbatim>\<open>addProducer(producer, roomId)\<close>.  A \<^verbatim>\<open>null\<close> producer is \<open>None\<close>; an empty id or
  room id is falsy.  The producer entry is stored before the directory is made and the
  RTP side is set up, and it is the stored entry that gains \<^verbatim>\<open>rtpInfo\<close> and
  \<^verbatim>\<open>hlsUrl\<close> afterwards; an exception on the way leaves the entry in the map.  Only a
  video producer gets a port and an encoder.
\<close>

definition addProducer ::
  "hls_config \<Rightarrow> converter \<Rightarrow> int \<Rightarrow> hls_producer option \<Rightarrow> string \<Rightarrow> add_env
     \<Rightarrow> (error + producer_info) \<times> converter" where
  "addProducer cfg st now producerOpt roomId env =
     (case producerOpt of
        None \<Rightarrow> (Inl InvalidInput, st)
      | Some producer \<Rightarrow>
          if hp_id producer = [] \<or> roomId = [] then (Inl InvalidInput, st)
          else if filter wordOrDash roomId \<noteq> roomId then (Inl InvalidInput, st)
          else
            (let outputId = roomId @ ''-'' @ secureId env
             in case map_of (cv_producers st) (hp_id producer) of
                  Some info \<Rightarrow> (Inr info, st)
                | None \<Rightarrow>
                    (let info = \<lparr>pi_id = hp_id producer, pi_kind = hp_kind producer,
                                  pi_roomId = roomId, pi_outputId = outputId,
                                  pi_createdAt = now, pi_hlsUrl = None, pi_rtpInfo = None\<rparr>;
                         st1 = st\<lparr>cv_producers :=
                                    AList.update (hp_id producer) info (cv_producers st)\<rparr>;
                         outputDir = hls_outputPath cfg @ ''/'' @ outputId
                     in if \<not> add_mkdirOk env then (Inl EngineFailure, st1)
                        else if hp_kind producer \<noteq> Video then (Inr info, st1)
                        else
                          (case allocateRtpPort (portRandom env) (cv_usedPorts st1) of
                             Inl e \<Rightarrow> (Inl e, st1)
                           | Inr (port, used) \<Rightarrow>
                               (let pid = cv_nextPid st1;
                                    info' = info\<lparr>
                                      pi_rtpInfo := Some \<lparr>rtpPort = port,
                                         rtpHost = ''127.0.0.1'', rtp_outputDir = outputDir\<rparr>,
                                      pi_hlsUrl := Some
                                        (if cloudFront_domain cfg \<noteq> []
                                         then ''https://'' @ cloudFront_domain cfg @ ''/hls/''
                                                @ outputId @ ''/playlist.m3u8''
                                         else hls_baseUrl cfg @ ''/'' @ outputId
                                                @ ''/playlist.m3u8'')\<rparr>
                                in (Inr info',
                                    st1\<lparr>cv_usedPorts := used,
                                        cv_nextPid := pid + 1,
                                        cv_spawned := cv_spawned st1 @ [(pid, port, outputDir)],
                                        cv_ffmpegProcesses :=
                                          AList.update (hp_id producer) pid
                                            (cv_ffmpegProcesses st1),
                                        cv_producers :=
                                          AList.update (hp_id producer) info'
                                            (cv_producers st1)\<rparr>))))))"

definition converter_init :: converter where
  "converter_init = \<lparr>cv_producers = [], cv_ffmpegProcesses = [], cv_usedPorts = {},
     cv_spawned = [], cv_nextPid = 0\<rparr>"

definition add_exampleEnv :: add_env where
  "add_exampleEnv = \<lparr>secureId = ''0f3a'', portRandom = (\<lambda>_. 1 / 2), add_mkdirOk = True\<rparr>"

text \<open>The module after one successful \<^verbatim>\<open>addProducer\<close> for the video producer cam.\<close>

definition converter_running :: converter where
  "converter_running = \<lparr>cv_producers =
     [(''cam'', \<lparr>pi_id = ''cam'', pi_kind = Video, pi_roomId = ''room-1'',
          pi_outputId = ''room-1-0f3a'', pi_createdAt = 1000,
          pi_hlsUrl = Some ''http://localhost:3000/hls/room-1-0f3a/playlist.m3u8'',
          pi_rtpInfo = Some \<lparr>rtpPort = 35000, rtpHost = ''127.0.0.1'',
                rtp_outputDir = ''public/hls/room-1-0f3a''\<rparr>\<rparr>)],
     cv_ffmpegProcesses = [(''cam'', 0)], cv_usedPorts = {35000},
     cv_spawned = [(0, 35000, ''public/hls/room-1-0f3a'')], cv_nextPid = 1\<rparr>"

section \<open>Segment upload passes\<close>

text \<open>
  An entry of the output directory as one pass meets it: its name, its modification time
  in milliseconds, and whether \<^verbatim>\<open>access\<close>, \<^verbatim>\<open>stat\<close> and \<^verbatim>\<open>readFile\<close> succeed on it.
\<close>

record dir_file =
  file_name :: string
  file_mtime :: int
  file_readable :: bool

text \<open>A \<^verbatim>\<open>PutObjectCommand\<close> that the object store accepted.\<close>

record s3_object =
  s3_Key :: string
  s3_ContentType :: string
  s3_CacheControl :: string

definition endsWith :: "string \<Rightarrow> string \<Rightarrow> bool" where
  "endsWith s suf \<longleftrightarrow> length suf \<le> length s \<and> drop (length s - length suf) s = suf"

definition debounceWindowMs :: int where
  "debounceWindowMs = 500"

text \<open>
  One pass of \<^verbatim>\<open>uploadNewFiles\<close> in \<^verbatim>\<open>converter.js\<close> over the files \<^verbatim>\<open>readdir\<close>
  listed.  \<open>nowAt f\<close> is the value of \<^verbatim>\<open>Date.now()\<close> read while file \<open>f\<close> is handled,
  \<open>sendOk k\<close> tells whether the object store accepts the upload under key \<open>k\<close>; a failure
  on one file is logged and the loop goes on.  The result lists the uploads made.
\<close>

fun uploadNewFiles ::
  "string \<Rightarrow> (string \<Rightarrow> int) \<Rightarrow> (string \<Rightarrow> bool) \<Rightarrow> dir_file list \<Rightarrow> s3_object list" where
  "uploadNewFiles outputId nowAt sendOk [] = []"
| "uploadNewFiles outputId nowAt sendOk (f # files) =
     (let file = file_name f
      in if \<not> endsWith file ''.m3u8'' \<and> \<not> endsWith file ''.ts''
         then uploadNewFiles outputId nowAt sendOk files
         else if \<not> file_readable f then uploadNewFiles outputId nowAt sendOk files
         else if nowAt file - file_mtime f < debounceWindowMs
         then uploadNewFiles outputId nowAt sendOk files
         else
           (let contentType = (if endsWith file ''.m3u8'' then ''application/vnd.apple.mpegurl''
                               else if endsWith file ''.ts'' then ''video/mp2t''
                               else ''application/octet-stream'');
                s3Key = ''hls/'' @ outputId @ ''/'' @ file;
                obj = \<lparr>s3_Key = s3Key, s3_ContentType = contentType,
                       s3_CacheControl = (if endsWith file ''.m3u8'' then ''max-age=3''
                                          else ''max-age=31536000'')\<rparr>
            in if sendOk s3Key then obj # uploadNewFiles outputId nowAt sendOk files
               else uploadNewFiles outputId nowAt sendOk files))"

text \<open>
  One pass of \<^verbatim>\<open>uploadLoop\<close> in \<^verbatim>\<open>HlsConverterService._startS3Uploader\<close>.  The loop
  exists only for a conversion started with S3 enabled, and a pass does nothing once the
  conversion id is no longer registered or the service is closed.  Otherwise every listed
  \<^verbatim>\<open>.ts\<close> or \<^verbatim>\<open>.m3u8\<close> file is read and uploaded.  The pass reads no clock and no
  modification time.
\<close>

definition uploadLoop_file :: "string \<Rightarrow> string \<Rightarrow> (string \<Rightarrow> bool) \<Rightarrow> dir_file \<Rightarrow> s3_object list" where
  "uploadLoop_file roomId producerId sendOk f =
     (let file = file_name f;
          s3Key = ''hls/'' @ roomId @ ''/'' @ producerId @ ''/'' @ file
      in if \<not> file_readable f then []
         else if sendOk s3Key
         then [\<lparr>s3_Key = s3Key,
                 s3_ContentType = (if endsWith file ''.m3u8'' then ''application/vnd.apple.mpegurl''
                                   else ''video/MP2T''),
                 s3_CacheControl = (if endsWith file ''.m3u8'' then ''max-age=5''
                                    else ''max-age=3600'')\<rparr>]
         else [])"

definition uploadLoop_pass ::
  "HlsConverterService \<Rightarrow> nat \<Rightarrow> (string \<Rightarrow> bool) \<Rightarrow> dir_file list \<Rightarrow> s3_object list" where
  "uploadLoop_pass st ref sendOk files =
     (case map_of (store st) ref of
        None \<Rightarrow> []
      | Some c \<Rightarrow>
          if ref \<notin> set (uploaders st) then []
          else if map_of (conversions st) (c_id c) = None \<or> svc_closed st then []
          else concat (map (uploadLoop_file (c_roomId c) (c_producerId c) sendOk)
                         (filter (\<lambda>f. endsWith (file_name f) ''.ts''
                                       \<or> endsWith (file_name f) ''.m3u8'') files)))"

text \<open>A directory with one segment file, last modified at time 9900.\<close>

definition freshSegment :: "dir_file list" where
  "freshSegment = [\<lparr>file_name = ''segment_000.ts'', file_mtime = 9900, file_readable = True\<rparr>]"

section \<open>Properties of the RTP port allocator\<close>

lemma randomPort_range:
  assumes "0 \<le> r" "r < 1"
  shows "even (randomPort r) \<and> minRtpPort \<le> randomPort r \<and> randomPort r < maxRtpPort"
proof -
  define k where "k = nat \<lfloor>r * real (maxRtpPort - minRtpPort)\<rfloor>"
  have "r * 49999 < 49999" using assms by simp
  then have "\<lfloor>r * 49999\<rfloor> < 49999" by (simp add: floor_less_iff)
  moreover have "0 \<le> \<lfloor>r * 49999\<rfloor>" using assms by simp
  ultimately have k: "k < 49999" unfolding k_def maxRtpPort_def minRtpPort_def by simp linarith
  have rp: "randomPort r = (if odd k then k + 10001 else k + 10000)"
    by (simp add: randomPort_def k_def Let_def minRtpPort_def maxRtpPort_def mod_2_eq_odd)
  show ?thesis
  proof (cases "even k")
    case True
    then show ?thesis using k unfolding rp minRtpPort_def maxRtpPort_def by simp
  next
    case False
    then have "k \<noteq> 49998" by auto
    with k have "k < 49998" by linarith
    then show ?thesis using False unfolding rp minRtpPort_def maxRtpPort_def by simp
  qed
qed

lemma scanPorts_step:
  "port \<in> u \<and> port \<le> maxRtpPort \<Longrightarrow> scanPorts u port = scanPorts u (port + 2)"
  by (subst scanPorts.simps) simp

lemma scanPorts_stop:
  "\<not> (port \<in> u \<and> port \<le> maxRtpPort) \<Longrightarrow> scanPorts u port = port"
  by (subst scanPorts.simps) auto



lemma scanPorts_finds:
  "even port \<Longrightarrow> even q \<Longrightarrow> port \<le> q \<Longrightarrow> q \<le> maxRtpPort \<Longrightarrow> q \<notin> u
    \<Longrightarrow> scanPorts u port \<le> q"
proof (induction u port rule: scanPorts.induct)
  case (1 u port)
  show ?case
  proof (cases "port \<in> u \<and> port \<le> maxRtpPort")
    case True
    with "1.prems" have "port \<noteq> q" by auto
    moreover have "port + 1 \<noteq> q" using "1.prems" by auto
    ultimately have "port + 2 \<le> q" using "1.prems" by linarith
    with "1.IH"[OF True] "1.prems" show ?thesis unfolding scanPorts_step[OF True] by auto
  next
    case False
    from False "1.prems" show ?thesis unfolding scanPorts_stop[OF False] by auto
  qed
qed

lemma allocLoop_unfold:
  "allocLoop random u a =
     (if a + 1 > 100 then scanPorts u minRtpPort
      else if randomPort (random a) \<in> u \<and> randomPort (random a) \<le> maxRtpPort
           then allocLoop random u (a + 1)
           else randomPort (random a))"
  by (subst allocLoop.simps) (simp add: Let_def)



lemma allocLoop_free:
  assumes "\<forall>k. 0 \<le> random k \<and> random k < 1"
    and "even q \<and> minRtpPort \<le> q \<and> q \<le> maxRtpPort \<and> q \<notin> u"
  shows "allocLoop random u a \<le> maxRtpPort"
  using assms
proof (induction random u a rule: allocLoop.induct)
  case (1 random u a)
  note r = "1.prems"(1) and free = "1.prems"(2)
  have rp: "even (randomPort (random a)) \<and> minRtpPort \<le> randomPort (random a)
            \<and> randomPort (random a) < maxRtpPort"
    using r randomPort_range by blast
  have emin: "even minRtpPort" by (simp add: minRtpPort_def)
  show ?case
  proof (cases "a + 1 > 100")
    case True
    then have eq: "allocLoop random u a = scanPorts u minRtpPort"
      by (subst allocLoop_unfold) simp
    have "scanPorts u minRtpPort \<le> q" using scanPorts_finds[OF emin, of q u] free by simp
    then show ?thesis unfolding eq using free by simp
  next
    case nt: False
    show ?thesis
    proof (cases "randomPort (random a) \<in> u \<and> randomPort (random a) \<le> maxRtpPort")
      case True
      then have eq: "allocLoop random u a = allocLoop random u (a + 1)"
        using nt by (subst allocLoop_unfold) simp
      show ?thesis unfolding eq using "1.IH"[OF refl refl _ True r free] nt by simp
    next
      case False
      then have eq: "allocLoop random u a = randomPort (random a)"
        using nt by (subst allocLoop_unfold) auto
      show ?thesis unfolding eq using rp by simp
    qed
  qed
qed

lemma allocateRtpPort_succeeds:
  assumes r: "\<forall>k. 0 \<le> random k \<and> random k < 1"
    and free: "even q \<and> minRtpPort \<le> q \<and> q \<le> maxRtpPort \<and> q \<notin> usedPorts"
  shows "\<exists>port. allocateRtpPort random usedPorts = Inr (port, insert port usedPorts)"
  using allocLoop_free[OF r free, of 0] by (simp add: allocateRtpPort_def Let_def)



section \<open>Properties of the worker pool\<close>

lemma MediasoupServer_getNextWorker_empty:
  "workers p = [] \<Longrightarrow> MediasoupServer_getNextWorker p = Inl NoWorkersAvailable"
  by (simp add: MediasoupServer_getNextWorker_def)

lemma MediasoupServer_getNextWorker_round_robin:
  assumes "nextWorkerIndex p = Idx i" and "i < length (workers p)"
  shows "MediasoupServer_getNextWorker p =
           Inr (Some (workers p ! i),
                p\<lparr>nextWorkerIndex := Idx ((i + 1) mod length (workers p))\<rparr>)"
  using assms by (auto simp: MediasoupServer_getNextWorker_def)

lemma RoomManager_getNextWorker_round_robin:
  assumes "nextWorkerIndex p = Idx i" and "i < length (workers p)"
  shows "RoomManager_getNextWorker p =
           (Some (workers p ! i),
            p\<lparr>nextWorkerIndex := Idx ((i + 1) mod length (workers p))\<rparr>)"
  using assms by (auto simp: RoomManager_getNextWorker_def)

text \<open>
  Claim C9 (the code departs from it).  On an empty pool \<^verbatim>\<open>RoomManager._getNextWorker\<close>
  does not throw: it returns \<^verbatim>\<open>undefined\<close> and leaves \<^verbatim>\<open>NaN\<close> in
  \<^verbatim>\<open>nextWorkerIndex\<close>, where \<^verbatim>\<open>MediasoupServer._getNextWorker\<close> throws.
\<close>

theorem RoomManager_getNextWorker_empty_returns_undefined:
  "RoomManager_getNextWorker RoomManager_emptyPool =
     (None, \<lparr>workers = [], nextWorkerIndex = NaN\<rparr>)
   \<and> MediasoupServer_getNextWorker RoomManager_emptyPool = Inl NoWorkersAvailable"
  by (simp add: RoomManager_getNextWorker_def RoomManager_emptyPool_def
                MediasoupServer_getNextWorker_def)

text \<open>
  The index of \<^verbatim>\<open>MediasoupServer\<close> can also point past the array: with two workers, one
  call moves the index to 1; when the second worker dies the array shrinks to one element
  and the next call returns \<^verbatim>\<open>undefined\<close> from a pool that is not empty.
\<close>

lemma MediasoupServer_getNextWorker_after_death:
  "MediasoupServer_getNextWorker \<lparr>workers = [100, 101], nextWorkerIndex = Idx 0\<rparr>
     = Inr (Some 100, \<lparr>workers = [100, 101], nextWorkerIndex = Idx 1\<rparr>)
   \<and> MediasoupServer_workerDied \<lparr>workers = [100, 101], nextWorkerIndex = Idx 1\<rparr> 101
     = \<lparr>workers = [100], nextWorkerIndex = Idx 1\<rparr>
   \<and> MediasoupServer_getNextWorker \<lparr>workers = [100], nextWorkerIndex = Idx 1\<rparr>
     = Inr (None, \<lparr>workers = [100], nextWorkerIndex = Idx 0\<rparr>)"
  by (simp add: MediasoupServer_getNextWorker_def MediasoupServer_workerDied_def)

section \<open>Properties of the room registry\<close>

lemma getRouter_known:
  "map_of (ms_rooms st) roomId = Some room \<Longrightarrow> getRouter st now roomId = (Inr (ms_router room), st)"
  by (simp add: getRouter_def getRouter_begin_def)

lemma getRouter_unknown:
  assumes "map_of (ms_rooms st) roomId = None"
    and "getRouter st now roomId = (Inr r, st')"
  shows "map_of (ms_rooms st') roomId
           = Some \<lparr>ms_id = roomId, ms_router = r, ms_peers = [], ms_createdAt = now\<rparr>
       \<and> map fst (routersCreated (ms_engine st')) = map fst (routersCreated (ms_engine st)) @ [r]"
  using assms
  by (auto simp: getRouter_def getRouter_begin_def getRouter_resume_def
        MediasoupServer_getNextWorker_def createRouter_def Let_def update_conv'
      split: option.splits prod.splits async.splits sum.splits if_splits)

lemma getRouter_seq_known:
  "map_of (ms_rooms st) roomId = Some room \<Longrightarrow>
   getRouter_seq st roomId clocks = (replicate (length clocks) (Inr (ms_router room)), st)"
  by (induction clocks) (simp_all add: getRouter_known)

lemmas ms_eval = ms_fresh_def getRouter_def getRouter_begin_def getRouter_resume_def
  MediasoupServer_getNextWorker_def createRouter_def run_call_def Let_def

text \<open>
  \<^verbatim>\<open>RoomManager.getOrCreateRoom\<close> for a room id that is not registered throws, whatever
  the pool holds, and registers nothing: no call of it creates a router.
\<close>

lemma getOrCreateRoom_unknown_throws:
  assumes "map_of (rm_rooms st) roomId = None"
  shows "getOrCreateRoom st roomId
           = (Inl (if js_array_get (workers st) (nextWorkerIndex st) = None
                   then UndefinedWorker else UndefinedConfig),
              st\<lparr>nextWorkerIndex := js_succ_mod (nextWorkerIndex st) (length (workers st))\<rparr>)"
  using assms
  by (auto simp: getOrCreateRoom_def RoomManager_getNextWorker_def config_router_def
      split: option.splits)

lemma getOrCreateRoom_fresh:
  "getOrCreateRoom rm_fresh roomId = (Inl UndefinedWorker, rm_fresh\<lparr>nextWorkerIndex := NaN\<rparr>)"
  by (simp add: getOrCreateRoom_unknown_throws rm_fresh_def)

lemma RoomManager_initialize_throws:
  "RoomManager_initialize st = (Inl UndefinedConfig, st)"
  by (simp add: RoomManager_initialize_def config_worker_def)

text \<open>
  Claim C1 as stated fails on the code.  Two calls of \<^verbatim>\<open>MediasoupServer.getRouter\<close> for
  the same unknown room id, both started before either resumes from its \<^verbatim>\<open>await\<close>, each
  take a worker and create a router; they return different routers, and the second to
  resume overwrites the registry entry of the first.
\<close>

theorem getRouter_race_counterexample:
  "map_of (ms_rooms ms_fresh) ''room-1'' = None
   \<and> run_schedule ms_fresh [NotStarted ''room-1'', NotStarted ''room-1'']
         [(0, 10), (1, 11), (0, 12), (1, 13)] =
     ([Finished (Inr 0), Finished (Inr 1)],
      \<lparr>workers = [100, 101], nextWorkerIndex = Idx 0,
       ms_rooms = [(''room-1'', \<lparr>ms_id = ''room-1'', ms_router = 1, ms_peers = [],
                                 ms_createdAt = 13\<rparr>)],
       ms_producers = [], ms_consumers = [],
       ms_engine = \<lparr>nextId = 2, routersCreated = [(0, 100), (1, 101)],
          closedRouters = [], closedTransports = []\<rparr>,
       ms_events = []\<rparr>)"
  by (simp add: ms_eval)

text \<open>
  Claim C1, amended.  When the calls of \<^verbatim>\<open>MediasoupServer.getRouter\<close> for an unknown
  room id run one after another (each returns before the next starts) and the first one
  succeeds, every call returns the router of the first call, the registry maps the id to
  the room built around that router, and exactly one router was created.
\<close>

theorem getRouter_sequential_single_creation:
  assumes unknown: "map_of (ms_rooms st) roomId = None"
    and first: "getRouter st now roomId = (Inr r, st')"
  shows "getRouter_seq st roomId (now # clocks) = (replicate (Suc (length clocks)) (Inr r), st')
       \<and> map_of (ms_rooms st') roomId
            = Some \<lparr>ms_id = roomId, ms_router = r, ms_peers = [], ms_createdAt = now\<rparr>
       \<and> map fst (routersCreated (ms_engine st')) = map fst (routersCreated (ms_engine st)) @ [r]"
proof -
  from getRouter_unknown[OF unknown first]
  have known: "map_of (ms_rooms st') roomId
            = Some \<lparr>ms_id = roomId, ms_router = r, ms_peers = [], ms_createdAt = now\<rparr>"
    and created: "map fst (routersCreated (ms_engine st'))
            = map fst (routersCreated (ms_engine st)) @ [r]"
    by blast+
  show ?thesis
    by (simp add: first getRouter_seq_known[OF known] known created)
qed

theorem getRouter_sequential_single_creation_witness:
  "map_of (ms_rooms ms_fresh) ''room-1'' = None
   \<and> getRouter_seq ms_fresh ''room-1'' [10, 20, 30]
       = ([Inr 0, Inr 0, Inr 0],
          \<lparr>workers = [100, 101], nextWorkerIndex = Idx 1,
           ms_rooms = [(''room-1'', \<lparr>ms_id = ''room-1'', ms_router = 0, ms_peers = [],
                                     ms_createdAt = 10\<rparr>)],
           ms_producers = [], ms_consumers = [],
           ms_engine = \<lparr>nextId = 1, routersCreated = [(0, 100)],
              closedRouters = [], closedTransports = []\<rparr>,
           ms_events = []\<rparr>)"
proof -
  have u: "map_of (ms_rooms ms_fresh) ''room-1'' = None" by (simp add: ms_fresh_def)
  have f: "getRouter ms_fresh 10 ''room-1''
       = (Inr 0,
          \<lparr>workers = [100, 101], nextWorkerIndex = Idx 1,
           ms_rooms = [(''room-1'', \<lparr>ms_id = ''room-1'', ms_router = 0, ms_peers = [],
                                     ms_createdAt = 10\<rparr>)],
           ms_producers = [], ms_consumers = [],
           ms_engine = \<lparr>nextId = 1, routersCreated = [(0, 100)],
              closedRouters = [], closedTransports = []\<rparr>,
           ms_events = []\<rparr>)"
    by (simp add: ms_eval)
  from getRouter_sequential_single_creation[OF u f, of "[20, 30]"] u
  show ?thesis by (simp add: numeral_3_eq_3)
qed

section \<open>Properties of closePeer\<close>

lemma map_of_delete_self: "map_of (AList.delete k xs) k = None"
  by (simp add: AList.delete_conv)

lemma delete_only_key:
  "fst ` set xs = {k} \<Longrightarrow> AList.delete k xs = []"
  by (induction xs) (auto simp: AList.delete_eq filter_empty_conv)

lemma map_of_only_key:
  assumes "fst ` set xs = {k}"
  shows "\<exists>v. map_of xs k = Some v"
proof -
  from assms have "k \<in> fst ` set xs" by simp
  then show ?thesis by (metis map_of_eq_None_iff not_Some_eq)
qed

text \<open>
  Claim C2.  When \<^verbatim>\<open>closePeer\<close> is called for the only peer left in a room, the room is
  absent from the registry afterwards; the router of the room and every transport of the
  peer have been closed.
\<close>

theorem closePeer_last_peer:
  assumes room: "map_of (ms_rooms st) roomId = Some room"
    and last: "fst ` set (ms_peers room) = {peerId}"
  shows "map_of (ms_rooms (closePeer st roomId peerId)) roomId = None
       \<and> ms_router room \<in> set (closedRouters (ms_engine (closePeer st roomId peerId)))
       \<and> (\<exists>peer. map_of (ms_peers room) peerId = Some peer
             \<and> snd ` set (peer_transports peer)
                  \<subseteq> set (closedTransports (ms_engine (closePeer st roomId peerId))))"
proof -
  from map_of_only_key[OF last] obtain peer where peer: "map_of (ms_peers room) peerId = Some peer"
    by blast
  have gp: "getPeer st roomId peerId = Some peer"
    by (simp add: getPeer_def room peer)
  have del: "AList.delete peerId (ms_peers room) = []"
    by (rule delete_only_key[OF last])
  show ?thesis
    by (simp add: closePeer_def gp room del Let_def map_of_delete_self peer)
qed

theorem closePeer_last_peer_witness:
  "map_of (ms_rooms (closePeer ms_example ''room-1'' ''bob'')) ''room-1'' \<noteq> None
   \<and> map_of (ms_rooms (closePeer (closePeer ms_example ''room-1'' ''bob'') ''room-1'' ''alice''))
         ''room-1'' = None"
proof -
  let ?st = "closePeer ms_example ''room-1'' ''bob''"
  let ?alice = "\<lparr>peer_id = ''alice'', peer_transports = [(1, 1)],
                        peer_producers = [(2, \<lparr>producer_id = 2, producer_kind = Video,
                                                producer_userId = None\<rparr>)],
                        peer_consumers = [], peer_rtpCapabilities = None\<rparr>"
  let ?room = "\<lparr>ms_id = ''room-1'', ms_router = 0, ms_peers = [(''alice'', ?alice)],
                ms_createdAt = 0\<rparr>"
  have room: "map_of (ms_rooms ?st) ''room-1'' = Some ?room"
    by (simp add: closePeer_def getPeer_def ms_example_def Let_def)
  have last: "fst ` set (ms_peers ?room) = {''alice''}" by simp
  from closePeer_last_peer[OF room last] room show ?thesis by simp
qed

lemma closePeer_room_kept:
  assumes "map_of (ms_rooms st) roomId = Some room"
    and "map_of (ms_peers room) peerId = Some peer"
    and "AList.delete peerId (ms_peers room) \<noteq> []"
  shows "map_of (ms_rooms (closePeer st roomId peerId)) roomId
           = Some (room\<lparr>ms_peers := AList.delete peerId (ms_peers room)\<rparr>)"
  using assms by (simp add: closePeer_def getPeer_def Let_def update_conv')

section \<open>Properties of createConsumer\<close>

lemma MediasoupServer_createConsumer_incompatible:
  assumes "getPeer st roomId consumerPeerId = Some consumerPeer"
    and "getPeer st roomId producerPeerId = Some producerPeer"
    and "map_of (peer_producers producerPeer) producerId = Some p"
    and "map_of (peer_transports consumerPeer) transportId = Some t"
    and "peer_rtpCapabilities consumerPeer = Some caps"
    and "map_of (ms_rooms st) roomId = Some room"
    and "\<not> canConsume (ms_router room) (producer_id p) caps"
  shows "MediasoupServer_createConsumer canConsume st now roomId consumerPeerId producerPeerId
           producerId transportId = (Inl IncompatibleCapabilities, st)"
  using assms by (simp add: MediasoupServer_createConsumer_def getRouter_known)

lemma MediasoupServer_createConsumer_error_unchanged:
  "MediasoupServer_createConsumer canConsume st now roomId consumerPeerId producerPeerId
           producerId transportId = (Inl IncompatibleCapabilities, st') \<Longrightarrow> st' = st"
  by (auto simp: MediasoupServer_createConsumer_def getRouter_def getRouter_begin_def
         getRouter_resume_def getPeer_def Let_def
       split: option.splits prod.splits sum.splits if_splits async.splits)

lemma RoomManager_createConsumer_unknown_room:
  assumes "map_of (rm_rooms rm) roomId = None"
  shows "RoomManager_createConsumer canConsume rm roomId transportId producerId caps
           = (Inl (if js_array_get (workers rm) (nextWorkerIndex rm) = None
                   then UndefinedWorker else UndefinedConfig),
              rm\<lparr>nextWorkerIndex := js_succ_mod (nextWorkerIndex rm) (length (workers rm))\<rparr>)"
  by (simp add: RoomManager_createConsumer_def getOrCreateRoom_unknown_throws[OF assms])

text \<open>
  Claim C3.  When the capability check of \<^verbatim>\<open>MediasoupServer.createConsumer\<close> is reached
  (the peers, the producer and the transport are found, and the consuming peer announced
  its capabilities) and \<^verbatim>\<open>canConsume\<close> answers false, the call throws the
  incompatible-capabilities error and leaves the whole state as it was: no consumer is
  added to any collection.  \<^verbatim>\<open>RoomManager.createConsumer\<close> for a room id that is not
  registered never reaches its capability check: it throws out of \<^verbatim>\<open>getOrCreateRoom\<close>,
  and nothing but the worker index has changed, so no consumer has been added either.
\<close>

theorem createConsumer_incompatible:
  "(getPeer ms roomId consumerPeerId = Some consumerPeer
      \<and> getPeer ms roomId producerPeerId = Some producerPeer
      \<and> map_of (peer_producers producerPeer) producerId = Some p
      \<and> map_of (peer_transports consumerPeer) transportId = Some t
      \<and> peer_rtpCapabilities consumerPeer = Some caps
      \<and> map_of (ms_rooms ms) roomId = Some roomInfo
      \<and> \<not> canConsume (ms_router roomInfo) (producer_id p) caps
    \<longrightarrow> MediasoupServer_createConsumer canConsume ms now roomId consumerPeerId producerPeerId
           producerId transportId = (Inl IncompatibleCapabilities, ms))
   \<and> (map_of (rm_rooms rm) roomId' = None
    \<longrightarrow> RoomManager_createConsumer canConsume rm roomId' transportId' producerId' caps'
           = (Inl (if js_array_get (workers rm) (nextWorkerIndex rm) = None
                   then UndefinedWorker else UndefinedConfig),
              rm\<lparr>nextWorkerIndex := js_succ_mod (nextWorkerIndex rm) (length (workers rm))\<rparr>))"
proof (intro conjI impI)
  assume "getPeer ms roomId consumerPeerId = Some consumerPeer
      \<and> getPeer ms roomId producerPeerId = Some producerPeer
      \<and> map_of (peer_producers producerPeer) producerId = Some p
      \<and> map_of (peer_transports consumerPeer) transportId = Some t
      \<and> peer_rtpCapabilities consumerPeer = Some caps
      \<and> map_of (ms_rooms ms) roomId = Some roomInfo
      \<and> \<not> canConsume (ms_router roomInfo) (producer_id p) caps"
  then show "MediasoupServer_createConsumer canConsume ms now roomId consumerPeerId producerPeerId
           producerId transportId = (Inl IncompatibleCapabilities, ms)"
    using MediasoupServer_createConsumer_incompatible by blast
next
  assume "map_of (rm_rooms rm) roomId' = None"
  then show "RoomManager_createConsumer canConsume rm roomId' transportId' producerId' caps'
           = (Inl (if js_array_get (workers rm) (nextWorkerIndex rm) = None
                   then UndefinedWorker else UndefinedConfig),
              rm\<lparr>nextWorkerIndex := js_succ_mod (nextWorkerIndex rm) (length (workers rm))\<rparr>)"
    by (rule RoomManager_createConsumer_unknown_room)
qed

theorem createConsumer_incompatible_witness:
  "MediasoupServer_createConsumer (\<lambda>_ _ _. False) ms_example 0 ''room-1'' ''bob'' ''alice'' 2 3
     = (Inl IncompatibleCapabilities, ms_example)
   \<and> RoomManager_createConsumer (\<lambda>_ _ _. False) rm_fresh ''room-1'' 7 8 9
     = (Inl UndefinedWorker, rm_fresh\<lparr>nextWorkerIndex := NaN\<rparr>)"
proof -
  let ?bob = "\<lparr>peer_id = ''bob'', peer_transports = [(3, 3)],
                        peer_producers = [], peer_consumers = [],
                        peer_rtpCapabilities = Some 7\<rparr>"
  let ?alice = "\<lparr>peer_id = ''alice'', peer_transports = [(1, 1)],
                        peer_producers = [(2, \<lparr>producer_id = 2, producer_kind = Video,
                                                producer_userId = None\<rparr>)],
                        peer_consumers = [], peer_rtpCapabilities = None\<rparr>"
  have h1: "getPeer ms_example ''room-1'' ''bob'' = Some ?bob
      \<and> getPeer ms_example ''room-1'' ''alice'' = Some ?alice
      \<and> map_of (peer_producers ?alice) 2
            = Some \<lparr>producer_id = 2, producer_kind = Video, producer_userId = None\<rparr>
      \<and> map_of (peer_transports ?bob) 3 = Some 3
      \<and> peer_rtpCapabilities ?bob = Some 7
      \<and> map_of (ms_rooms ms_example) ''room-1'' = Some (snd (hd (ms_rooms ms_example)))
      \<and> \<not> (\<lambda>_ _ _. False) (ms_router (snd (hd (ms_rooms ms_example))))
             (producer_id \<lparr>producer_id = 2, producer_kind = Video, producer_userId = None\<rparr>)
             (7::nat)"
    by (simp add: getPeer_def ms_example_def)
  have h2: "map_of (rm_rooms rm_fresh) ''room-1'' = None" by (simp add: rm_fresh_def)
  note ms = createConsumer_incompatible[where ms = ms_example and roomId = "''room-1''"
        and consumerPeerId = "''bob''" and consumerPeer = ?bob and producerPeerId = "''alice''"
        and producerPeer = ?alice and producerId = 2 and transportId = 3 and caps = 7
        and canConsume = "\<lambda>_ _ _. False" and now = 0, THEN conjunct1]
  note rm = createConsumer_incompatible[where rm = rm_fresh and roomId' = "''room-1''"
        and producerId' = 8 and transportId' = 7 and caps' = 9
        and canConsume = "\<lambda>_ _ _. False", THEN conjunct2]
  from rm[rule_format, OF h2]
  have r: "RoomManager_createConsumer (\<lambda>_ _ _. False) rm_fresh ''room-1'' 7 8 9
     = (Inl UndefinedWorker, rm_fresh\<lparr>nextWorkerIndex := NaN\<rparr>)"
    by (simp add: rm_fresh_def)
  from ms h1 have m: "MediasoupServer_createConsumer (\<lambda>_ _ _. False) ms_example 0 ''room-1''
       ''bob'' ''alice'' 2 3 = (Inl IncompatibleCapabilities, ms_example)"
    by blast
  from m r show ?thesis by simp
qed

section \<open>Properties of the adaptive bitrate controller\<close>

lemma decrease_in_range:
  assumes "0 \<le> lo" "lo \<le> hi" "0 \<le> d" "d \<le> 1" "lo \<le> cur" "cur \<le> hi"
  shows "lo \<le> max lo \<lfloor>real_of_int cur * d\<rfloor> \<and> max lo \<lfloor>real_of_int cur * d\<rfloor> \<le> hi"
proof -
  have "0 \<le> real_of_int cur" using assms by simp
  then have "real_of_int cur * d \<le> real_of_int cur * 1"
    using assms(4) by (intro mult_left_mono) auto
  then have "\<lfloor>real_of_int cur * d\<rfloor> \<le> cur" by (simp add: floor_le_iff)
  with assms show ?thesis by simp
qed

lemma expUp_stop: "x < 2 \<Longrightarrow> expUp x = 0"
  by (subst expUp.simps) simp

lemma expUp_step: "2 \<le> x \<Longrightarrow> expUp x = Suc (expUp (x / 2))"
  by (subst expUp.simps) simp

lemma expUp_bounds:
  "1 \<le> x \<Longrightarrow> 2 ^ expUp x \<le> x \<and> x < 2 ^ Suc (expUp x)"
proof (induction x rule: expUp.induct)
  case (1 x)
  show ?case
  proof (cases "x < 2")
    case True
    with "1.prems" show ?thesis by (simp add: expUp_stop)
  next
    case False
    then have "1 \<le> x / 2" by simp
    from "1.IH"[OF False this] False show ?thesis by (simp add: expUp_step)
  qed
qed

lemma round_half_even_floor: "\<lfloor>y\<rfloor> \<le> round_half_even y"
  by (simp add: round_half_even_def Let_def)

lemma round_half_even_ge:
  assumes "of_int m \<le> y"
  shows "m \<le> round_half_even y"
proof -
  from assms have "m \<le> \<lfloor>y\<rfloor>" by (simp add: le_floor_iff)
  with round_half_even_floor[of y] show ?thesis by linarith
qed

lemma double_round_pos_ge:
  assumes "1 \<le> n" and "n \<le> 2 ^ 53" and "real_of_int n \<le> x"
  shows "real_of_int n \<le> double_round_pos x"
proof -
  have x1: "1 \<le> x" using assms(1,3) by linarith
  define e where "e = expUp x"
  have ex: "double_exponent x = int e" using x1 by (simp add: double_exponent_def e_def)
  from expUp_bounds[OF x1] have lo: "2 ^ e \<le> x" by (simp add: e_def)
  show ?thesis
  proof (cases "e \<le> 52")
    case True
    define k where "k = 52 - e"
    have dr: "double_round_pos x = of_int (round_half_even (x * 2 ^ k)) / 2 ^ k"
      using True by (simp add: double_round_pos_def ex k_def Let_def nat_diff_distrib')
    have "real_of_int (n * 2 ^ k) \<le> x * 2 ^ k" using assms(3) by simp
    then have "n * 2 ^ k \<le> round_half_even (x * 2 ^ k)" by (rule round_half_even_ge)
    then have "real_of_int (n * 2 ^ k) \<le> real_of_int (round_half_even (x * 2 ^ k))"
      by (simp only: of_int_le_iff)
    then have "real_of_int n * 2 ^ k \<le> real_of_int (round_half_even (x * 2 ^ k))" by simp
    then show ?thesis by (simp add: dr pos_le_divide_eq)
  next
    case False
    define k where "k = e - 52"
    have e_eq: "e = 52 + k" using False by (simp add: k_def)
    have dr: "double_round_pos x = of_int (round_half_even (x / 2 ^ k)) * 2 ^ k"
      using False by (simp add: double_round_pos_def ex k_def Let_def nat_diff_distrib')
    define R where "R = real_of_int (round_half_even (x / 2 ^ k))"
    define P where "P = (2::real) ^ k"
    define T where "T = (2::real) ^ 52"
    have "T * P \<le> x" using lo by (simp add: e_eq power_add T_def P_def)
    then have "real_of_int (2 ^ 52) \<le> x / 2 ^ k" by (simp add: pos_le_divide_eq T_def P_def)
    then have "2 ^ 52 \<le> round_half_even (x / 2 ^ k)" by (rule round_half_even_ge)
    then have "real_of_int (2 ^ 52) \<le> R" unfolding R_def by (simp only: of_int_le_iff)
    then have TR: "T \<le> R" by (simp add: T_def)
    have T0: "0 \<le> T" by (simp add: T_def)
    have "1 \<le> k" using False by (simp add: k_def)
    then have "(2::real) ^ 1 \<le> 2 ^ k" by (intro power_increasing) simp_all
    then have P2: "2 \<le> P" by (simp add: P_def)
    have "T * 2 \<le> R * P" by (rule mult_mono) (use TR P2 T0 in simp_all)
    moreover have "real_of_int n \<le> T * 2"
    proof -
      have "real_of_int n \<le> real_of_int (2 ^ 53)" using assms(2) by (simp only: of_int_le_iff)
      then show ?thesis by (simp add: T_def)
    qed
    ultimately have "real_of_int n \<le> R * P" by (rule order_trans[rotated])
    then show ?thesis by (simp add: dr R_def P_def)
  qed
qed

lemma double_round_ge:
  assumes "0 \<le> n" and "n \<le> 2 ^ 53" and "real_of_int n \<le> x"
  shows "real_of_int n \<le> double_round x"
proof (cases "n = 0")
  case True
  show ?thesis
  proof (cases "x = 0")
    case True
    with \<open>n = 0\<close> show ?thesis by (simp add: double_round_def)
  next
    case False
    with assms(3) \<open>n = 0\<close> have pos: "0 < x" by simp
    have "0 \<le> double_round_pos x"
    proof -
      have a: "0 \<le> round_half_even y" if "0 \<le> y" for y
        using round_half_even_ge[of 0 y] that by simp
      show ?thesis
        using pos by (simp add: double_round_pos_def Let_def a)
    qed
    with pos \<open>n = 0\<close> show ?thesis by (simp add: double_round_def)
  qed
next
  case False
  with assms(1) have n1: "1 \<le> n" by simp
  with assms(3) have pos: "0 < x" by linarith
  from double_round_pos_ge[OF n1 assms(2,3)] pos show ?thesis by (simp add: double_round_def)
qed

lemma increase_in_range:
  assumes "0 \<le> lo" "lo \<le> hi" "hi \<le> 2 ^ 53" "1 \<le> i" "lo \<le> cur" "cur \<le> hi"
  shows "lo \<le> min hi \<lfloor>double_round (real_of_int cur * i)\<rfloor>
       \<and> min hi \<lfloor>double_round (real_of_int cur * i)\<rfloor> \<le> hi"
proof -
  have c0: "0 \<le> cur" and c53: "cur \<le> 2 ^ 53" using assms by linarith+
  have "0 \<le> real_of_int cur" using c0 by simp
  then have "real_of_int cur * 1 \<le> real_of_int cur * i"
    using assms(4) by (intro mult_left_mono) auto
  then have "real_of_int cur \<le> real_of_int cur * i" by simp
  from double_round_ge[OF c0 c53 this]
  have "cur \<le> \<lfloor>double_round (real_of_int cur * i)\<rfloor>" by (simp add: le_floor_iff)
  with assms show ?thesis by simp
qed

lemma abrTick_inv:
  assumes ok: "0 \<le> minimumAvailableOutgoingBitrate cfg"
      "minimumAvailableOutgoingBitrate cfg \<le> maximumAvailableOutgoingBitrate cfg"
      "maximumAvailableOutgoingBitrate cfg \<le> 2 ^ 53"
      "0 \<le> decreaseFactor cfg" "decreaseFactor cfg \<le> 1" "1 \<le> increaseFactor cfg"
    and inv: "abr_inv cfg s"
  shows "abr_inv cfg (abrTick cfg s now statsResult)"
proof -
  from inv have cur: "minimumAvailableOutgoingBitrate cfg \<le> maxOutgoingBitrate s"
      "maxOutgoingBitrate s \<le> maximumAvailableOutgoingBitrate cfg"
    by (simp_all add: abr_inv_def in_range_def)
  note d = decrease_in_range[OF ok(1,2,4,5) cur]
  note i = increase_in_range[OF ok(1,2,3,6) cur]
  show ?thesis
    using inv d i
    by (auto simp: abrTick_def abr_inv_def in_range_def setMaxOutgoingBitrate_def Let_def
        split: option.splits)
qed

lemma abrStep_inv:
  assumes "0 \<le> minimumAvailableOutgoingBitrate cfg"
      "minimumAvailableOutgoingBitrate cfg \<le> maximumAvailableOutgoingBitrate cfg"
      "maximumAvailableOutgoingBitrate cfg \<le> 2 ^ 53"
      "0 \<le> decreaseFactor cfg" "decreaseFactor cfg \<le> 1" "1 \<le> increaseFactor cfg"
    and "abr_inv cfg s"
  shows "abr_inv cfg (abrStep cfg s ev)"
proof (cases ev)
  case (Tick now statsResult)
  then show ?thesis using abrTick_inv[OF assms] by simp
next
  case TransportClosed
  then show ?thesis using assms(7) by (simp add: abr_inv_def)
qed

lemma abrRun_inv:
  assumes "0 \<le> minimumAvailableOutgoingBitrate cfg"
      "minimumAvailableOutgoingBitrate cfg \<le> maximumAvailableOutgoingBitrate cfg"
      "maximumAvailableOutgoingBitrate cfg \<le> 2 ^ 53"
      "0 \<le> decreaseFactor cfg" "decreaseFactor cfg \<le> 1" "1 \<le> increaseFactor cfg"
    and "abr_inv cfg s"
  shows "abr_inv cfg (abrRun cfg s events)"
  using assms(7)
proof (induction events arbitrary: s)
  case Nil
  then show ?case by (simp add: abrRun_def)
next
  case (Cons ev events)
  from abrStep_inv[OF assms(1-6) Cons.prems] have "abr_inv cfg (abrStep cfg s ev)" .
  from Cons.IH[OF this] show ?case by (simp add: abrRun_def)
qed

lemmas abr_eval = abrRun_def abrTick_def abrInit_def videoStats_def videoRtt_def defaultConfig_def
  setMaxOutgoingBitrate_def Let_def

lemma double_round_zero: "double_round 0 = 0"
  by (simp add: double_round_def)

lemma expUp_example: "expUp (121386083706470390625 / 70368744177664) = 20"
  by (simp add: expUp_step expUp_stop)

lemma double_round_example:
  "double_round (121386083706470390625 / 70368744177664) = 7408818585599999 / 4294967296"
proof -
  have e: "double_exponent (121386083706470390625 / 70368744177664) = 20"
    by (simp add: double_exponent_def expUp_example)
  have r: "round_half_even (121386083706470390625 / 16384) = 7408818585599999"
  proof -
    have f: "\<lfloor>121386083706470390625 / 16384 :: real\<rfloor> = 7408818585599999"
      by (simp add: floor_eq_iff)
    show ?thesis by (simp add: round_half_even_def Let_def f)
  qed
  have "double_round_pos (121386083706470390625 / 70368744177664) = 7408818585599999 / 4294967296"
    by (simp add: double_round_pos_def e Let_def r)
  then show ?thesis by (simp add: double_round_def)
qed

text \<open>
  Claim C4 as stated fails on the code.  The ceiling is clamped on one side only: a
  decrease is bounded below by the minimum, an increase above by the maximum.  On a
  transport whose ceiling reads 10000000 when the controller starts, the first congestion
  step applies 7500000, above the maximum of 5000000; on one whose ceiling reads 0, the
  first increase applies 0, below the minimum of 250000.
\<close>

theorem abr_bitrate_out_of_bounds_counterexample:
  "applied (abrRun defaultConfig (abrInit 0 10000000)
        [Tick 1000 (Some (videoStats 100)), Tick 6000 (Some (videoStats 200))]) = [7500000]
   \<and> maximumAvailableOutgoingBitrate defaultConfig < 7500000
   \<and> applied (abrRun defaultConfig (abrInit 0 0) calmEvents) = [0]
   \<and> 0 < minimumAvailableOutgoingBitrate defaultConfig"
  by (simp add: abr_eval calmEvents_def double_round_zero)

text \<open>
  Claim C4, amended.  With bounds \<open>0 \<le> min \<le> max \<le> 2 ^ 53\<close>, a decrease factor in
  \<open>[0, 1]\<close> and an increase factor of at least 1, on a transport whose outgoing ceiling is
  within \<open>[min, max]\<close> when the controller starts, every value the controller passes to
  \<^verbatim>\<open>setMaxOutgoingBitrate\<close> lies within \<open>[min, max]\<close>, whatever the sequence of ticks,
  RTT samples, failed \<^verbatim>\<open>getStats\<close> calls and close events, and however long it is.
\<close>

theorem abr_bitrate_within_bounds:
  assumes "0 \<le> minimumAvailableOutgoingBitrate cfg"
      "minimumAvailableOutgoingBitrate cfg \<le> maximumAvailableOutgoingBitrate cfg"
      "maximumAvailableOutgoingBitrate cfg \<le> 2 ^ 53"
      "0 \<le> decreaseFactor cfg" "decreaseFactor cfg \<le> 1" "1 \<le> increaseFactor cfg"
    and "minimumAvailableOutgoingBitrate cfg \<le> b0"
      "b0 \<le> maximumAvailableOutgoingBitrate cfg"
  shows "\<forall>b \<in> set (applied (abrRun cfg (abrInit t0 b0) events)).
           minimumAvailableOutgoingBitrate cfg \<le> b \<and> b \<le> maximumAvailableOutgoingBitrate cfg"
proof -
  have "abr_inv cfg (abrInit t0 b0)"
    using assms(7,8) by (simp add: abr_inv_def abrInit_def in_range_def)
  from abrRun_inv[OF assms(1-6) this, of events]
  show ?thesis by (simp add: abr_inv_def list_all_iff in_range_def)
qed

theorem abr_bitrate_within_bounds_witness:
  "applied (abrRun defaultConfig (abrInit 0 2000000) exampleEvents) = [1500000, 1724999]
   \<and> minimumAvailableOutgoingBitrate defaultConfig \<le> 1500000
   \<and> 1500000 \<le> maximumAvailableOutgoingBitrate defaultConfig
   \<and> minimumAvailableOutgoingBitrate defaultConfig \<le> 1724999
   \<and> 1724999 \<le> maximumAvailableOutgoingBitrate defaultConfig"
proof -
  have fl: "\<lfloor>7408818585599999 / 4294967296 :: real\<rfloor> = 1724999"
    by (simp add: floor_eq_iff)
  have run: "applied (abrRun defaultConfig (abrInit 0 2000000) exampleEvents) = [1500000, 1724999]"
    by (simp add: abr_eval exampleEvents_def double_round_example fl)
  have "\<forall>b \<in> set (applied (abrRun defaultConfig (abrInit 0 2000000) exampleEvents)).
           minimumAvailableOutgoingBitrate defaultConfig \<le> b
           \<and> b \<le> maximumAvailableOutgoingBitrate defaultConfig"
    by (rule abr_bitrate_within_bounds) (simp_all add: defaultConfig_def)
  with run show ?thesis by simp
qed




section \<open>Properties of the HLS start operations\<close>

lemma startConversion_registers:
  assumes "startConversion cfg st now roomId producer env = (Inr ref, st')"
  shows "map_of (conversions st') (roomId @ ''-'' @ hp_id producer) = Some ref"
  using assms
  by (auto simp: startConversion_def spawnFfmpeg_def Let_def update_conv'
      split: option.splits if_splits spawn_outcome.splits)

lemma startConversion_existing:
  assumes "map_of (conversions st) (roomId @ ''-'' @ hp_id producer) = Some ref"
  shows "startConversion cfg st now roomId producer env = (Inr ref, st)"
  using assms by (simp add: startConversion_def)

lemma addProducer_registers:
  assumes "addProducer cfg st now (Some producer) roomId env = (Inr info, st')"
  shows "map_of (cv_producers st') (hp_id producer) = Some info
       \<and> hp_id producer \<noteq> [] \<and> roomId \<noteq> [] \<and> filter wordOrDash roomId = roomId"
  using assms
  by (auto simp: addProducer_def Let_def update_conv'
      split: option.splits if_splits sum.splits prod.splits)

lemma addProducer_existing:
  assumes "map_of (cv_producers st) (hp_id producer) = Some info"
    and "hp_id producer \<noteq> []" and "roomId \<noteq> []" and "filter wordOrDash roomId = roomId"
  shows "addProducer cfg st now (Some producer) roomId env = (Inr info, st)"
  using assms by (simp add: addProducer_def)

lemmas hls_eval = startConversion_def spawnFfmpeg_def hlsUrl_def hls_init_def
  hls_exampleConfig_def hls_exampleProducer_def hls_goodEnv_def hls_running_def
  stopConversion_def processExit_def timerFires_def restartFFmpeg_def restartDelayMs_def Let_def

lemma startConversion_example:
  "startConversion hls_exampleConfig hls_init 1000 ''room-1'' hls_exampleProducer hls_goodEnv
     = (Inr 3, hls_running)"
  by (simp add: hls_eval)

lemma randomPort_half: "randomPort (1 / 2) = 35000"
  by (simp add: randomPort_def minRtpPort_def maxRtpPort_def Let_def)

lemma allocateRtpPort_example: "allocateRtpPort (\<lambda>_. 1 / 2) {} = Inr (35000, {35000})"
  by (simp add: allocateRtpPort_def allocLoop_unfold randomPort_half maxRtpPort_def)

lemma addProducer_example:
  "addProducer hls_exampleConfig converter_init 1000 (Some hls_exampleProducer) ''room-1''
       add_exampleEnv
     = (Inr \<lparr>pi_id = ''cam'', pi_kind = Video, pi_roomId = ''room-1'',
          pi_outputId = ''room-1-0f3a'', pi_createdAt = 1000,
          pi_hlsUrl = Some ''http://localhost:3000/hls/room-1-0f3a/playlist.m3u8'',
          pi_rtpInfo = Some \<lparr>rtpPort = 35000, rtpHost = ''127.0.0.1'',
                rtp_outputDir = ''public/hls/room-1-0f3a''\<rparr>\<rparr>, converter_running)"
  by (simp add: addProducer_def converter_init_def hls_exampleConfig_def hls_exampleProducer_def
        add_exampleEnv_def converter_running_def wordOrDash_def allocateRtpPort_example Let_def)

text \<open>
  Claim C6.  When a call of the HLS start operation (\<^verbatim>\<open>startConversion\<close> of
  \<^verbatim>\<open>HlsConverterService\<close>, \<^verbatim>\<open>addProducer\<close> of \<^verbatim>\<open>converter.js\<close>) has returned a
  conversion, the next call for the same room and producer, with nothing in between,
  returns the same conversion object and leaves the whole state as it is, whatever the
  clock, the random values and the outside world would have been: no directory is made, no
  port is taken and no second encoder is spawned.
\<close>

theorem startHls_idempotent:
  "(startConversion cfg st now roomId producer env = (Inr ref, st')
      \<longrightarrow> startConversion cfg st' now' roomId producer env' = (Inr ref, st'))
   \<and> (addProducer cfg cst now (Some producer) roomId aenv = (Inr info, cst')
      \<longrightarrow> addProducer cfg cst' now' (Some producer) roomId aenv' = (Inr info, cst'))"
proof (intro conjI impI)
  assume "startConversion cfg st now roomId producer env = (Inr ref, st')"
  from startConversion_existing[OF startConversion_registers[OF this]]
  show "startConversion cfg st' now' roomId producer env' = (Inr ref, st')" .
next
  assume "addProducer cfg cst now (Some producer) roomId aenv = (Inr info, cst')"
  from addProducer_registers[OF this]
  show "addProducer cfg cst' now' (Some producer) roomId aenv' = (Inr info, cst')"
    using addProducer_existing by blast
qed

theorem startHls_idempotent_witness:
  "startConversion hls_exampleConfig hls_init 1000 ''room-1'' hls_exampleProducer hls_goodEnv
     = (Inr 3, hls_running)
   \<and> startConversion hls_exampleConfig hls_running 2000 ''room-1'' hls_exampleProducer
        (hls_goodEnv\<lparr>ssrc := 6000\<rparr>) = (Inr 3, hls_running)
   \<and> spawned hls_running = [(2, \<lparr>sp_roomId = ''room-1'', sp_rtpPort = 5004,
         sp_rtpHost = ''127.0.0.1'', sp_mediaKind = Video,
         sp_outputDir = ''public/hls/room-1/cam''\<rparr>)]
   \<and> fst (addProducer hls_exampleConfig converter_running 2000 (Some hls_exampleProducer)
           ''room-1'' (add_exampleEnv\<lparr>secureId := ''ffff''\<rparr>))
       = fst (addProducer hls_exampleConfig converter_init 1000 (Some hls_exampleProducer)
           ''room-1'' add_exampleEnv)
   \<and> snd (addProducer hls_exampleConfig converter_running 2000 (Some hls_exampleProducer)
           ''room-1'' (add_exampleEnv\<lparr>secureId := ''ffff''\<rparr>)) = converter_running"
proof -
  note a = startHls_idempotent[where cfg = hls_exampleConfig and st = hls_init and now = 1000
      and roomId = "''room-1''" and producer = hls_exampleProducer and env = hls_goodEnv
      and ref = 3 and st' = hls_running and now' = 2000 and env' = "hls_goodEnv\<lparr>ssrc := 6000\<rparr>",
      THEN conjunct1]
  note b = startHls_idempotent[where cfg = hls_exampleConfig and cst = converter_init
      and now = 1000 and roomId = "''room-1''" and producer = hls_exampleProducer
      and aenv = add_exampleEnv and cst' = converter_running and now' = 2000
      and aenv' = "add_exampleEnv\<lparr>secureId := ''ffff''\<rparr>", THEN conjunct2]
  from a startConversion_example b addProducer_example show ?thesis
    by (simp add: hls_running_def)
qed

section \<open>Properties of the encoder restart logic\<close>

lemma processExit_schedules_restart:
  assumes "map_of (exitHandlers st) pid = Some (conversionId, ref)"
    and "code \<noteq> Some 0" and "\<not> svc_closed st"
  shows "timers (processExit st now pid code)
           = timers st @ [\<lparr>t_fireAt = now + restartDelayMs, t_conversionId = conversionId,
                            t_conversion = ref\<rparr>]
       \<and> spawned (processExit st now pid code) = spawned st
       \<and> conversions (processExit st now pid code) = conversions st
       \<and> store (processExit st now pid code) = store st"
  using assms by (simp add: processExit_def Let_def)

lemma timerFires_not_due:
  assumes "timers st = t # ts" and "now < t_fireAt t"
  shows "timerFires st now outcome = st"
  using assms by (simp add: timerFires_def)

lemma timerFires_relaunches:
  assumes "timers st = t # ts" and "t_fireAt t \<le> now"
    and "map_of (conversions st) (t_conversionId t) \<noteq> None" and "\<not> svc_closed st"
    and "map_of (store st) (t_conversion t) = Some c"
  shows "spawned (timerFires st now StaysUp)
           = spawned st @ [(hls_nextId st,
                \<lparr>sp_roomId = c_roomId c, sp_rtpPort = rc_ssrc (c_consumer c),
                 sp_rtpHost = ''127.0.0.1'', sp_mediaKind = rc_kind (c_consumer c),
                 sp_outputDir = c_outputDir c\<rparr>)]
       \<and> map_of (store (timerFires st now StaysUp)) (t_conversion t)
           = Some (c\<lparr>c_ffmpegProcess := hls_nextId st\<rparr>)
       \<and> conversions (timerFires st now StaysUp) = conversions st"
  using assms
  by (auto simp: timerFires_def restartFFmpeg_def spawnFfmpeg_def Let_def update_conv')

lemma timerFires_no_entry_no_relaunch:
  assumes "timers st = t # ts" and "map_of (conversions st) (t_conversionId t) = None"
  shows "spawned (timerFires st now outcome) = spawned st
       \<and> store (timerFires st now outcome) = store st"
  using assms by (simp add: timerFires_def Let_def)

lemma stopConversion_removes:
  "map_of (conversions (stopConversion st roomId producerId)) (roomId @ ''-'' @ producerId) = None"
  by (auto simp: stopConversion_def Let_def AList.delete_conv split: option.splits)

text \<open>
  Claim C7 (the code departs from it).  The restart timer tests the conversion id, not the
  conversion object.  A conversion is stopped, its killed encoder's exit event sets the
  ten-second timer, and the same room and producer are started again before the timer is
  due.  When the timer fires, the id is registered again (for the new conversion 7), so the
  stopped conversion 3 is relaunched: a third encoder is spawned into the same output
  directory and stored in the object that \<^verbatim>\<open>stopConversion\<close> had removed.
\<close>

theorem stale_restart_timer_relaunches_stopped_conversion:
  "map_of (conversions hls_running) ''room-1-cam'' = Some 3
   \<and> map_of (conversions hls_stopped) ''room-1-cam'' = None
   \<and> spawned hls_stopped = spawned hls_running
   \<and> timers hls_stopped = [\<lparr>t_fireAt = 12000, t_conversionId = ''room-1-cam'',
                               t_conversion = 3\<rparr>]
   \<and> map_of (conversions hls_started_again) ''room-1-cam'' = Some 7
   \<and> map_of (conversions (timerFires hls_started_again 12000 StaysUp)) ''room-1-cam'' = Some 7
   \<and> spawned (timerFires hls_started_again 12000 StaysUp)
       = spawned hls_started_again
         @ [(8, \<lparr>sp_roomId = ''room-1'', sp_rtpPort = 5004, sp_rtpHost = ''127.0.0.1'',
                  sp_mediaKind = Video, sp_outputDir = ''public/hls/room-1/cam''\<rparr>)]
   \<and> map_option c_ffmpegProcess (map_of (store (timerFires hls_started_again 12000 StaysUp)) 3)
       = Some 8"
  by (simp add: hls_stopped_def hls_started_again_def hls_eval)

section \<open>Properties of the upload passes\<close>

lemma endsWith_ts: "endsWith ''segment_000.ts'' ''.ts''" "\<not> endsWith ''segment_000.ts'' ''.m3u8''"
  by (simp_all add: endsWith_def)

lemma uploadNewFiles_keys:
  "obj \<in> set (uploadNewFiles outputId nowAt sendOk files) \<Longrightarrow>
   \<exists>f \<in> set files. s3_Key obj = ''hls/'' @ outputId @ ''/'' @ file_name f
      \<and> \<not> nowAt (file_name f) - file_mtime f < debounceWindowMs
      \<and> file_readable f \<and> sendOk (s3_Key obj)"
  by (induction files) (auto simp: Let_def split: if_splits)

lemma uploadNewFiles_debounce:
  assumes "\<forall>f \<in> set files. file_name f = name \<longrightarrow> nowAt name - file_mtime f < debounceWindowMs"
  shows "\<forall>obj \<in> set (uploadNewFiles outputId nowAt sendOk files).
           s3_Key obj \<noteq> ''hls/'' @ outputId @ ''/'' @ name"
proof
  fix obj assume "obj \<in> set (uploadNewFiles outputId nowAt sendOk files)"
  from uploadNewFiles_keys[OF this] obtain f where f: "f \<in> set files"
    "s3_Key obj = ''hls/'' @ outputId @ ''/'' @ file_name f"
    "\<not> nowAt (file_name f) - file_mtime f < debounceWindowMs" by blast
  show "s3_Key obj \<noteq> ''hls/'' @ outputId @ ''/'' @ name"
  proof
    assume "s3_Key obj = ''hls/'' @ outputId @ ''/'' @ name"
    with f(2) have "file_name f = name" by simp
    with assms f(1,3) show False by blast
  qed
qed

lemma uploadNewFiles_uploads_stable:
  assumes "f \<in> set files"
    and "endsWith (file_name f) ''.m3u8'' \<or> endsWith (file_name f) ''.ts''"
    and "file_readable f" and "debounceWindowMs \<le> nowAt (file_name f) - file_mtime f"
    and "sendOk (''hls/'' @ outputId @ ''/'' @ file_name f)"
  shows "\<exists>obj \<in> set (uploadNewFiles outputId nowAt sendOk files).
           s3_Key obj = ''hls/'' @ outputId @ ''/'' @ file_name f"
  using assms by (induction files) (auto simp: Let_def)

text \<open>
  Claim C8 (the code departs from it).  The upload pass of \<^verbatim>\<open>HlsConverterService\<close> has
  no debounce: a segment modified at time 9900 is uploaded by a pass at any time, also at
  time 10000, 100 ms later.  The pass of
  \<^verbatim>\<open>converter.js\<close> skips the same file at time 10000 and uploads it at time 10400.
\<close>

theorem uploadLoop_uploads_fresh_file:
  "uploadLoop_pass hls_running_s3 3 (\<lambda>_. True) freshSegment
     = [\<lparr>s3_Key = ''hls/room-1/cam/segment_000.ts'', s3_ContentType = ''video/MP2T'',
          s3_CacheControl = ''max-age=3600''\<rparr>]
   \<and> (10000::int) - 9900 < debounceWindowMs
   \<and> uploadNewFiles ''room-1-0f3a'' (\<lambda>_. 10000) (\<lambda>_. True) freshSegment = []
   \<and> uploadNewFiles ''room-1-0f3a'' (\<lambda>_. 10400) (\<lambda>_. True) freshSegment
       = [\<lparr>s3_Key = ''hls/room-1-0f3a/segment_000.ts'', s3_ContentType = ''video/mp2t'',
            s3_CacheControl = ''max-age=31536000''\<rparr>]"
  by (simp add: uploadLoop_pass_def uploadLoop_file_def hls_running_s3_def hls_s3Config_def
        hls_eval freshSegment_def endsWith_ts debounceWindowMs_def)


end
